theory Spec2Isabelle
  imports Complex_Main "HOL-Library.Multiset"
begin

chapter \<open>Frame preparation of QSSGLayerRenderData (qssglayerrenderdata.cpp)\<close>

text \<open>
  The embedding follows \<^verbatim>\<open>src/runtimerender/rendererimpl/qssglayerrenderdata.cpp\<close>.
  The \<^verbatim>\<open>float\<close> values whose arithmetic decides a branch (opacities and the
  level-of-detail quantities) are embedded as binary32 values with rounding, signed zeros,
  infinities and NaN (\<open>float32\<close> below); positions, depths and distances, which the code
  modelled here only compares or stores, are embedded as \<^typ>\<open>real\<close>, so that for them
  rounding and NaN are not represented. Objects that the code reaches through
  pointers and only reads (lights, models, materials, particles, probes) are values;
  renderable objects, which the per-frame allocator creates and the probe injection later
  mutates through the handles, live in an explicit store, a pointer being an index into it.
  Shader-key bookkeeping, dirty tracking and one-time warnings do not influence any of the
  lists modelled here and are left out.
\<close>

section \<open>Vectors and camera data\<close>

type_synonym QVector3D = "real \<times> real \<times> real"

fun dotProduct :: "QVector3D \<Rightarrow> QVector3D \<Rightarrow> real" where
  "dotProduct (x1, y1, z1) (x2, y2, z2) = x1 * x2 + y1 * y2 + z1 * z2"

fun vecMinus :: "QVector3D \<Rightarrow> QVector3D \<Rightarrow> QVector3D" where
  "vecMinus (x1, y1, z1) (x2, y2, z2) = (x1 - x2, y1 - y2, z1 - z2)"

record QSSGCameraData =
  direction :: QVector3D
  position :: QVector3D

section \<open>Single-precision arithmetic\<close>

text \<open>
  A C++ \<^verbatim>\<open>float\<close> as an IEEE 754 binary32 value: a finite number (\<open>Float 0\<close> is the
  positive zero), the negative zero, the two infinities, or NaN. The operations compute
  the exact result and round it to the nearest binary32 value, ties to even, as the
  default rounding mode does; expressions are evaluated in single precision.
\<close>

datatype float32 = Float real | MinusZero | PlusInfinity | MinusInfinity | NaN

text \<open>
  \<open>binade k m\<close> is the exponent \<open>e\<close> of the binade \<open>2 powi e \<le> m < 2 powi (e + 1)\<close> of a
  magnitude \<open>m\<close>, searched downwards from \<open>int k - 126\<close> and cut off at \<open>- 126\<close>, the
  exponent of the smallest normal numbers, which the subnormal numbers share. With
  \<open>k = 253\<close> the search starts at 127, the largest exponent of the format.
\<close>

fun binade :: "nat \<Rightarrow> real \<Rightarrow> int" where
  "binade 0 m = - 126"
| "binade (Suc k) m = (if 2 powi (int k - 125) \<le> m then int k - 125 else binade k m)"

definition round_ties_even :: "real \<Rightarrow> int" where
  "round_ties_even q =
     (let n = \<lfloor>q\<rfloor>; r = q - of_int n
      in if r < 1 / 2 then n else if r > 1 / 2 then n + 1
         else if even n then n else n + 1)"

text \<open>
  Rounding of the exact magnitude \<open>m\<close> of a result whose sign is known: the significand
  has 24 bits, so the spacing of the values around \<open>m\<close> is \<open>2 powi (e - 23)\<close>; a rounded
  magnitude of \<open>2 powi 128\<close> or more overflows to an infinity, a rounded magnitude of zero
  is a zero with the sign of the result.
\<close>

definition float_round :: "bool \<Rightarrow> real \<Rightarrow> float32" where
  "float_round negative m =
     (let ulp = 2 powi (binade 253 m - 23);
          r = of_int (round_ties_even (m / ulp)) * ulp
      in if r \<ge> 2 powi 128 then (if negative then MinusInfinity else PlusInfinity)
         else if r = 0 then (if negative then MinusZero else Float 0)
         else Float (if negative then - r else r))"

fun float_val :: "float32 \<Rightarrow> real" where
  "float_val (Float x) = x"
| "float_val _ = 0"

fun float_negative :: "float32 \<Rightarrow> bool" where
  "float_negative (Float x) = (x < 0)"
| "float_negative MinusZero = True"
| "float_negative MinusInfinity = True"
| "float_negative _ = False"

definition float_infinite :: "float32 \<Rightarrow> bool" where
  "float_infinite a = (a = PlusInfinity \<or> a = MinusInfinity)"

definition float_zero :: "float32 \<Rightarrow> bool" where
  "float_zero a = (a = Float 0 \<or> a = MinusZero)"

definition float_infinity :: "bool \<Rightarrow> float32" where
  "float_infinity negative = (if negative then MinusInfinity else PlusInfinity)"

fun float_neg :: "float32 \<Rightarrow> float32" where
  "float_neg (Float x) = (if x = 0 then MinusZero else Float (- x))"
| "float_neg MinusZero = Float 0"
| "float_neg PlusInfinity = MinusInfinity"
| "float_neg MinusInfinity = PlusInfinity"
| "float_neg NaN = NaN"

definition float_mul :: "float32 \<Rightarrow> float32 \<Rightarrow> float32" where
  "float_mul a b =
     (if a = NaN \<or> b = NaN then NaN
      else if float_infinite a \<or> float_infinite b then
        (if float_zero a \<or> float_zero b then NaN
         else float_infinity (float_negative a \<noteq> float_negative b))
      else float_round (float_negative a \<noteq> float_negative b) \<bar>float_val a * float_val b\<bar>)"

definition float_div :: "float32 \<Rightarrow> float32 \<Rightarrow> float32" where
  "float_div a b =
     (if a = NaN \<or> b = NaN then NaN
      else if float_infinite a then
        (if float_infinite b then NaN
         else float_infinity (float_negative a \<noteq> float_negative b))
      else if float_infinite b then
        (if float_negative a \<noteq> float_negative b then MinusZero else Float 0)
      else if float_zero b then
        (if float_zero a then NaN
         else float_infinity (float_negative a \<noteq> float_negative b))
      else float_round (float_negative a \<noteq> float_negative b) \<bar>float_val a / float_val b\<bar>)"

definition float_sub :: "float32 \<Rightarrow> float32 \<Rightarrow> float32" where
  "float_sub a b =
     (if a = NaN \<or> b = NaN then NaN
      else if float_infinite a then (if b = a then NaN else a)
      else if float_infinite b then float_neg b
      else
        (let x = float_val a - float_val b
         in if x = 0 then (if a = MinusZero \<and> b = Float 0 then MinusZero else Float 0)
            else float_round (x < 0) \<bar>x\<bar>))"

text \<open>
  The comparisons \<^verbatim>\<open><\<close> and \<^verbatim>\<open><=\<close>: false as soon as an operand is NaN, the two zeros
  equal. \<^verbatim>\<open>a > b\<close> is \<open>float_less b a\<close> and \<^verbatim>\<open>a >= b\<close> is \<open>float_le b a\<close>.
\<close>

fun float_less :: "float32 \<Rightarrow> float32 \<Rightarrow> bool" where
  "float_less NaN b = False"
| "float_less a NaN = False"
| "float_less PlusInfinity b = False"
| "float_less a MinusInfinity = False"
| "float_less MinusInfinity b = True"
| "float_less a PlusInfinity = True"
| "float_less a b = (float_val a < float_val b)"

definition float_le :: "float32 \<Rightarrow> float32 \<Rightarrow> bool" where
  "float_le a b = (a \<noteq> NaN \<and> b \<noteq> NaN \<and> \<not> float_less b a)"

section \<open>Sorting\<close>






section \<open>Renderable objects, handles and the layer data\<close>

datatype QSSGRenderableObjectFlag =
  HasTransparency | CompletelyTransparent | Dirty | CastsShadows | ReceivesShadows
  | ReceivesReflections | CastsReflections | UsedInBakedLighting | RequiresScreenTexture
  | HasAttributePosition | HasAttributeNormal | HasAttributeTexCoord0
  | HasAttributeTexCoord1 | HasAttributeTexCoordLightmap | HasAttributeTangent
  | HasAttributeBinormal | HasAttributeColor | HasAttributeJointAndWeight
  | HasAttributeMorphTarget | IsPointsTopology

type_synonym QSSGRenderableObjectFlags = "QSSGRenderableObjectFlag set"

definition setFlag ::
  "QSSGRenderableObjectFlag \<Rightarrow> bool \<Rightarrow> QSSGRenderableObjectFlags \<Rightarrow> QSSGRenderableObjectFlags" where
  "setFlag f b flags = (if b then insert f flags else flags - {f})"

datatype RenderableType = DefaultMaterialMeshSubset | CustomMaterialMeshSubset | Particles

text \<open>
  A renderable record. \<open>reflectionProbeIndex\<close> starts at \<open>-1\<close>, the member initialiser
  of the class. \<open>sourceNode\<close> and \<open>sourceSubset\<close> stand for the references to the model
  context and the subset that the constructor receives: the position of the node in the
  list being prepared and the subset index.
\<close>

record QSSGRenderableObject =
  objType :: RenderableType
  renderableFlags :: QSSGRenderableObjectFlags
  worldCenterPoint :: QVector3D
  depthBiasSq :: real
  objOpacity :: float32
  subsetLevelOfDetail :: nat
  reflectionProbeIndex :: int
  distanceFromReflectionProbe :: real
  sourceNode :: nat
  sourceSubset :: nat

record QSSGRenderableObjectHandle =
  obj :: nat
  cameraDistanceSq :: real

record QSSGRenderItem2D =
  item2D :: nat
  itemParent :: "nat option"
  zOrder :: int

datatype ReflectionMapEntry = TexturedReflectionMapEntry nat | LiveReflectionMapEntry nat

record QSSGLayerRenderPreparationResultFlags =
  requiresDepthTexture :: bool
  requiresSsaoPass :: bool
  requiresShadowMapPass :: bool
  requiresScreenTexture :: bool
  requiresMipmapsForScreenTexture :: bool


text \<open>
  The members of QSSGLayerRenderData that the modelled functions read or write.
  \<open>frameObjects\<close> is the per-frame allocator's store of renderable records;
  \<open>enableDepthTest\<close> is the layer flag \<^verbatim>\<open>QSSGRenderLayer::LayerFlag::EnableDepthTest\<close>;
  \<open>camera\<close> is the resolved camera pointer (\<open>None\<close> for \<^verbatim>\<open>nullptr\<close>).
\<close>

record QSSGLayerRenderData =
  frameObjects :: "QSSGRenderableObject list"
  opaqueObjects :: "QSSGRenderableObjectHandle list"
  transparentObjects :: "QSSGRenderableObjectHandle list"
  screenTextureObjects :: "QSSGRenderableObjectHandle list"
  bakedLightingModels :: "(nat \<times> QSSGRenderableObjectHandle list) list"
  renderedOpaqueObjects :: "QSSGRenderableObjectHandle list"
  renderedTransparentObjects :: "QSSGRenderableObjectHandle list"
  renderedScreenTextureObjects :: "QSSGRenderableObjectHandle list"
  renderableItem2Ds :: "QSSGRenderItem2D list"
  renderedItem2Ds :: "QSSGRenderItem2D list"
  reflectionMapEntries :: "ReflectionMapEntry list"
  camera :: "nat option"
  enableDepthTest :: bool

text \<open>
  \<^verbatim>\<open>resetForFrame\<close>: the per-frame lists are cleared and the camera is forgotten. (The
  allocator behind \<open>frameObjects\<close> is reset by the renderer, not here.)
\<close>

definition resetForFrame :: "QSSGLayerRenderData \<Rightarrow> QSSGLayerRenderData" where
  "resetForFrame d =
     d\<lparr>opaqueObjects := [], transparentObjects := [],
       screenTextureObjects := [], bakedLightingModels := [], renderedOpaqueObjects := [],
       renderedTransparentObjects := [], renderedScreenTextureObjects := [],
       renderableItem2Ds := [], renderedItem2Ds := [], camera := None\<rparr>"

definition getCameraDistanceSq :: "QSSGRenderableObject \<Rightarrow> QSSGCameraData \<Rightarrow> real" where
  "getCameraDistanceSq ob cam =
     dotProduct (vecMinus (worldCenterPoint ob) (position cam)) (direction cam) + depthBiasSq ob"

section \<open>Render-list sorter\<close>








section \<open>Camera resolution (prepareForRender, "Cameras")\<close>

text \<open>
  Cameras are pointers into a store. \<open>calc\<close> is what
  \<^verbatim>\<open>setupCameraForRender\<close> (through \<^verbatim>\<open>calculateGlobalVariables\<close>, outside the source
  at hand) does to a camera, \<open>isActive\<close> reads
  \<^verbatim>\<open>getGlobalState(QSSGRenderCamera::GlobalState::Active)\<close>.
\<close>

fun searchCameras ::
  "('c \<Rightarrow> 'c) \<Rightarrow> ('c \<Rightarrow> bool) \<Rightarrow> (nat \<Rightarrow> 'c) \<Rightarrow> nat list \<Rightarrow> (nat \<Rightarrow> 'c) \<times> nat option" where
  "searchCameras calc isActive store [] = (store, None)"
| "searchCameras calc isActive store (theCamera # rest) =
     (let store' = store(theCamera := calc (store theCamera)) in
      if isActive (store' theCamera) then (store', Some theCamera)
      else searchCameras calc isActive store' rest)"

definition resolveCamera ::
  "('c \<Rightarrow> 'c) \<Rightarrow> ('c \<Rightarrow> bool) \<Rightarrow> (nat \<Rightarrow> 'c) \<Rightarrow> nat option \<Rightarrow> nat list
     \<Rightarrow> (nat \<Rightarrow> 'c) \<times> nat option" where
  "resolveCamera calc isActive store explicitCamera cameras =
     (case explicitCamera of
        Some cam \<Rightarrow>
          (let store' = store(cam := calc (store cam)) in
           if \<not> isActive (store' cam) then (store', None) else (store', Some cam))
      | None \<Rightarrow> searchCameras calc isActive store cameras)"

section \<open>Light and shadow budgets (prepareForRender, "Lights")\<close>

datatype Feature = ReduceMaxNumLights | Ssao | Ssm | LightProbe

record QSSGRenderLight =
  lightNode :: nat
  m_castShadow :: bool
  m_fullyBaked :: bool
  m_scope :: "nat option"

record QSSGShaderLight =
  light :: QSSGRenderLight
  shadows :: bool

text \<open>
  The budgets \<^verbatim>\<open>QSSG_MAX_NUM_LIGHTS\<close>, \<^verbatim>\<open>QSSG_REDUCED_MAX_NUM_LIGHTS\<close> and
  \<^verbatim>\<open>QSSG_MAX_NUM_SHADOW_MAPS\<close> are macros of a header outside the source at hand; they
  are parameters here.
\<close>

definition effectiveMaxLightCount :: "nat \<Rightarrow> nat \<Rightarrow> Feature set \<Rightarrow> nat" where
  "effectiveMaxLightCount maxNumLights reducedMaxNumLights features =
     (if ReduceMaxNumLights \<in> features then reducedMaxNumLights else maxNumLights)"

text \<open>
  The loop over \<^verbatim>\<open>lights.crbegin() .. crbegin() + qMin(maxLightCount, lights.size())\<close>;
  the state is \<open>(shadowMapCount, hasScopedLights, renderableLights)\<close>.
\<close>

fun collectRenderableLights ::
  "nat \<Rightarrow> QSSGRenderLight list \<Rightarrow> nat \<times> bool \<times> QSSGShaderLight list
     \<Rightarrow> nat \<times> bool \<times> QSSGShaderLight list" where
  "collectRenderableLights maxNumShadowMaps [] st = st"
| "collectRenderableLights maxNumShadowMaps (renderLight # rest)
       (shadowMapCount, hasScopedLights, renderableLights) =
     (let hasScopedLights' = (hasScopedLights \<or> m_scope renderLight \<noteq> None);
          mightCastShadows = (m_castShadow renderLight \<and> \<not> m_fullyBaked renderLight);
          shadows' = (mightCastShadows \<and> shadowMapCount < maxNumShadowMaps);
          shadowMapCount' = shadowMapCount + (if shadows' then 1 else 0)
      in collectRenderableLights maxNumShadowMaps rest
           (shadowMapCount', hasScopedLights',
            renderableLights @ [\<lparr>light = renderLight, shadows = shadows'\<rparr>]))"

definition selectRenderableLights ::
  "nat \<Rightarrow> nat \<Rightarrow> QSSGRenderLight list \<Rightarrow> nat \<times> bool \<times> QSSGShaderLight list" where
  "selectRenderableLights maxLightCount maxNumShadowMaps lights =
     collectRenderableLights maxNumShadowMaps
       (take (min maxLightCount (length lights)) (rev lights)) (0, False, [])"

definition mightCastShadows :: "QSSGRenderLight \<Rightarrow> bool" where
  "mightCastShadows l = (m_castShadow l \<and> \<not> m_fullyBaked l)"


section \<open>Preparation flags and pass scheduling (prepareForRender)\<close>

text \<open>
  The flags of a fresh QSSGLayerRenderPreparationResult after the "SSAO" and "Effects"
  blocks: \<open>ssaoEnabled\<close> is \<^verbatim>\<open>layer.ssaoEnabled()\<close>, the list holds
  \<^verbatim>\<open>requiresDepthTexture\<close> of each effect of the layer's effect chain.
\<close>

definition initialPreparationFlags ::
  "bool \<Rightarrow> bool list \<Rightarrow> QSSGLayerRenderPreparationResultFlags" where
  "initialPreparationFlags ssaoEnabled effects =
     \<lparr>requiresDepthTexture =
        foldl (\<lambda>requires effectRequires. if effectRequires then True else requires)
          ssaoEnabled effects,
      requiresSsaoPass = ssaoEnabled,
      requiresShadowMapPass = False,
      requiresScreenTexture = False,
      requiresMipmapsForScreenTexture = False\<rparr>"


section \<open>Material preparation\<close>

datatype ImageType =
  Diffuse | Opacity | Specular | Emissive | Bump | SpecularAmountMap | Normal | Translucency
  | Roughness | BaseColor | Metalness | Occlusion | Height | Clearcoat | ClearcoatRoughness
  | ClearcoatNormal | Transmission | Thickness

text \<open>
  An image of a material: whether \<^verbatim>\<open>clearDirty()\<close> reports a change, whether the
  buffer manager delivers a texture for it, and whether that texture has transparency.
\<close>

record QSSGRenderImage =
  imageDirty :: bool
  textureLoaded :: bool
  textureHasTransparency :: bool

datatype MaterialType = DefaultMaterial | PrincipledMaterial | SpecularGlossyMaterial

datatype MaterialBlendMode = SourceOver | Screen | Multiply

datatype MaterialAlphaMode = Default | Mask | Blend | Opaque

record QSSGRenderDefaultMaterial =
  materialType :: MaterialType
  materialDirty :: bool
  opacity :: float32
  blendMode :: MaterialBlendMode
  alphaMode :: MaterialAlphaMode
  transmissionEnabled :: bool
  materialDepthBiasSq :: real
  colorMap :: "QSSGRenderImage option"
  occlusionMap :: "QSSGRenderImage option"
  heightMap :: "QSSGRenderImage option"
  clearcoatMap :: "QSSGRenderImage option"
  clearcoatRoughnessMap :: "QSSGRenderImage option"
  clearcoatNormalMap :: "QSSGRenderImage option"
  transmissionMap :: "QSSGRenderImage option"
  thicknessMap :: "QSSGRenderImage option"
  metalnessMap :: "QSSGRenderImage option"
  emissiveMap :: "QSSGRenderImage option"
  specularReflection :: "QSSGRenderImage option"
  roughnessMap :: "QSSGRenderImage option"
  opacityMap :: "QSSGRenderImage option"
  bumpMap :: "QSSGRenderImage option"
  specularMap :: "QSSGRenderImage option"
  normalMap :: "QSSGRenderImage option"
  translucencyMap :: "QSSGRenderImage option"

datatype RenderFlag =
  Blending | ScreenTexture | DepthTexture | AoTexture | OverridesPosition
  | ProjectionMatrix | InverseProjectionMatrix | ScreenMipTexture | VarColor

record QSSGRenderCustomMaterial =
  m_renderFlags :: "RenderFlag set"
  customDepthBiasSq :: real

text \<open>
  What a slot of \<^verbatim>\<open>model.materials\<close> can point to: one of the three default material
  types, a custom material, or a graph object of another type (for which the preparer
  creates nothing).
\<close>

datatype QSSGRenderGraphObject =
  DefaultMaterialObject QSSGRenderDefaultMaterial
  | CustomMaterialObject QSSGRenderCustomMaterial
  | OtherGraphObject

record QSSGDefaultMaterialPreparationResult =
  prepRenderableFlags :: QSSGRenderableObjectFlags
  prepOpacity :: float32
  prepDirty :: bool

text \<open>The effect of \<^verbatim>\<open>prepareImageForRender\<close> on the renderable flags.\<close>

definition prepareImageForRender ::
  "QSSGRenderImage \<Rightarrow> ImageType \<Rightarrow> QSSGRenderableObjectFlags \<Rightarrow> QSSGRenderableObjectFlags" where
  "prepareImageForRender inImage inMapType ioFlags =
     (let f1 = (if imageDirty inImage then insert Dirty ioFlags else ioFlags) in
      if textureLoaded inImage then
        (if textureHasTransparency inImage
             \<and> (inMapType = Diffuse \<or> inMapType = Opacity \<or> inMapType = Translucency)
         then insert HasTransparency f1 else f1)
      else f1)"

text \<open>The macro \<^verbatim>\<open>CHECK_IMAGE_AND_PREPARE\<close>: a null image is skipped.\<close>

fun checkImageAndPrepare ::
  "QSSGRenderableObjectFlags \<Rightarrow> QSSGRenderImage option \<times> ImageType \<Rightarrow> QSSGRenderableObjectFlags" where
  "checkImageAndPrepare flags (None, imgtype) = flags"
| "checkImageAndPrepare flags (Some img, imgtype) = prepareImageForRender img imgtype flags"

text \<open>The images a default material has prepared, in the order of the macro calls.\<close>

definition materialImages ::
  "QSSGRenderDefaultMaterial \<Rightarrow> (QSSGRenderImage option \<times> ImageType) list" where
  "materialImages m =
     (if materialType m = PrincipledMaterial \<or> materialType m = SpecularGlossyMaterial then
        [(colorMap m, BaseColor), (occlusionMap m, Occlusion), (heightMap m, Height),
         (clearcoatMap m, Clearcoat), (clearcoatRoughnessMap m, ClearcoatRoughness),
         (clearcoatNormalMap m, ClearcoatNormal), (transmissionMap m, Transmission),
         (thicknessMap m, Thickness)]
        @ (if materialType m = PrincipledMaterial then [(metalnessMap m, Metalness)] else [])
      else [(colorMap m, Diffuse)])
     @ [(emissiveMap m, Emissive), (specularReflection m, Specular),
        (roughnessMap m, Roughness), (opacityMap m, Opacity), (bumpMap m, Bump),
        (specularMap m, SpecularAmountMap), (normalMap m, Normal),
        (translucencyMap m, Translucency)]"

text \<open>
  \<^verbatim>\<open>prepareDefaultMaterialForRender\<close>. \<open>minOpacity\<close> is the macro
  \<^verbatim>\<open>QSSG_RENDER_MINIMUM_RENDER_OPACITY\<close>, defined in a header outside the source at hand
  and taken to be of type \<^verbatim>\<open>float\<close>, so that \<^verbatim>\<open>1.f - QSSG_RENDER_MINIMUM_RENDER_OPACITY\<close>
  is a single-precision subtraction. The result is the preparation result and the updated
  layer flags.
\<close>

definition prepareDefaultMaterialForRender ::
  "float32 \<Rightarrow> QSSGRenderDefaultMaterial \<Rightarrow> QSSGRenderableObjectFlags \<Rightarrow> float32
     \<Rightarrow> QSSGLayerRenderPreparationResultFlags
     \<Rightarrow> QSSGDefaultMaterialPreparationResult \<times> QSSGLayerRenderPreparationResultFlags" where
  "prepareDefaultMaterialForRender minOpacity inMaterial inExistingFlags inOpacity ioFlags =
     (let rf1 = (if materialDirty inMaterial then insert Dirty inExistingFlags
                 else inExistingFlags);
          so1 = float_mul inOpacity (opacity inMaterial);
          rf2 = (if float_le minOpacity so1 then
                   foldl checkImageAndPrepare
                     (if blendMode inMaterial \<noteq> SourceOver \<or> opacityMap inMaterial \<noteq> None
                          \<or> alphaMode inMaterial = Blend
                      then insert HasTransparency rf1 else rf1)
                     (materialImages inMaterial)
                 else rf1);
          so2 = (if float_less so1 minOpacity then Float 0 else so1);
          rf3 = (if float_less so1 minOpacity
                 then insert CompletelyTransparent (insert HasTransparency rf2) else rf2);
          so3 = (if float_less (float_sub (Float 1) minOpacity) so2 then Float 1 else so2);
          rf4 = (if float_less (float_sub (Float 1) minOpacity) so2 then rf3
                 else insert HasTransparency rf3);
          io1 = (if transmissionEnabled inMaterial
                 then ioFlags\<lparr>requiresScreenTexture := True,
                              requiresMipmapsForScreenTexture := True\<rparr>
                 else ioFlags);
          rf5 = (if transmissionEnabled inMaterial then insert RequiresScreenTexture rf4
                 else rf4)
      in (\<lparr>prepRenderableFlags = rf5, prepOpacity = so3, prepDirty = (Dirty \<in> rf5)\<rparr>, io1))"

definition prepareCustomMaterialForRender ::
  "float32 \<Rightarrow> QSSGRenderCustomMaterial \<Rightarrow> QSSGRenderableObjectFlags \<Rightarrow> float32
     \<Rightarrow> QSSGLayerRenderPreparationResultFlags
     \<Rightarrow> QSSGDefaultMaterialPreparationResult \<times> QSSGLayerRenderPreparationResultFlags" where
  "prepareCustomMaterialForRender minOpacity inMaterial inExistingFlags inOpacity ioFlags =
     (let so1 = (if float_less inOpacity minOpacity then Float 0 else inOpacity);
          rf1 = (if float_less inOpacity minOpacity
                 then insert CompletelyTransparent (insert HasTransparency inExistingFlags)
                 else inExistingFlags);
          so2 = (if float_less (float_sub (Float 1) minOpacity) so1 then Float 1 else so1);
          rf2 = (if float_less (float_sub (Float 1) minOpacity) so1 then rf1
                 else insert HasTransparency rf1);
          rf3 = (if Blending \<in> m_renderFlags inMaterial then insert HasTransparency rf2
                 else rf2);
          io1 = (if ScreenTexture \<in> m_renderFlags inMaterial
                 then ioFlags\<lparr>requiresScreenTexture := True\<rparr> else ioFlags);
          rf4 = (if ScreenTexture \<in> m_renderFlags inMaterial
                 then insert RequiresScreenTexture rf3 else rf3);
          io2 = (if ScreenMipTexture \<in> m_renderFlags inMaterial
                 then io1\<lparr>requiresScreenTexture := True,
                          requiresMipmapsForScreenTexture := True\<rparr>
                 else io1);
          rf5 = (if ScreenMipTexture \<in> m_renderFlags inMaterial
                 then insert RequiresScreenTexture rf4 else rf4);
          io3 = (if DepthTexture \<in> m_renderFlags inMaterial
                 then io2\<lparr>requiresDepthTexture := True\<rparr> else io2);
          io4 = (if AoTexture \<in> m_renderFlags inMaterial
                 then io3\<lparr>requiresDepthTexture := True, requiresSsaoPass := True\<rparr>
                 else io3)
      in (\<lparr>prepRenderableFlags = rf5, prepOpacity = so2, prepDirty = False\<rparr>, io4))"

section \<open>Level of detail (prepareModelForRender, "Level Of Detail")\<close>

text \<open>
  A mesh subset. \<open>lods\<close> holds \<^verbatim>\<open>lods[i].distance\<close>; \<open>lodDistanceMin\<close> and
  \<open>lodDistanceMax\<close> are the signed distances of the two support points of the transformed
  bounds from the camera plane (QSSGBounds3 and QSSGPlane are outside the source at
  hand); \<open>subsetCenter\<close> is the transformed centre of the bounds; \<open>inputs\<close> are the
  vertex input semantics of the subset.
\<close>

datatype InputSemantic =
  PositionSemantic | NormalSemantic | TexCoord0Semantic | TexCoord1Semantic
  | TexCoordLightmapSemantic | TangentSemantic | BinormalSemantic | ColorSemantic
  | JointSemantic | WeightSemantic

record QSSGRenderSubset =
  lods :: "float32 list"
  lodDistanceMin :: float32
  lodDistanceMax :: float32
  subsetCenter :: QVector3D
  inputs :: "InputSemantic list"
  hasTargetsTexture :: bool
  pointsTopology :: bool

record QSSGRenderCamera =
  orthographicCamera :: bool
  levelOfDetailMultiplier :: float32

text \<open>
  \<^verbatim>\<open>distanceThreshold\<close> after the block that accounts for the projection. It starts as
  \<^verbatim>\<open>0.0f\<close> and keeps that value when none of the three tests holds (a NaN distance).
  \<^verbatim>\<open>-distanceMax\<close> of a positive zero is the negative zero.
\<close>

definition lodDistanceThreshold :: "QSSGRenderCamera \<Rightarrow> QSSGRenderSubset \<Rightarrow> float32" where
  "lodDistanceThreshold cam theSubset =
     (if \<not> orthographicCamera cam then
        (let distanceMin = lodDistanceMin theSubset;
             distanceMax = lodDistanceMax theSubset
         in if float_less (float_mul distanceMin distanceMax) (Float 0) then Float 0
            else if float_le (Float 0) distanceMin then distanceMin
            else if float_le distanceMax (Float 0) then float_neg distanceMax
            else Float 0)
      else Float 1)"

text \<open>
  The loop over the levels: \<open>i\<close> is the loop index, \<open>currentLod\<close> the running result.
  The quotient \<^verbatim>\<open>subsetDistance / threshold\<close> of a zero \<open>threshold\<close> is an infinity or
  NaN, as \<open>float_div\<close> has it.
\<close>

fun lodLoop ::
  "float32 \<Rightarrow> float32 \<Rightarrow> float32 \<Rightarrow> float32 \<Rightarrow> float32 list \<Rightarrow> nat \<Rightarrow> int \<Rightarrow> int" where
  "lodLoop threshold modelScale modelBias lodThreshold [] i currentLod = currentLod"
| "lodLoop threshold modelScale modelBias lodThreshold (lodDistance # rest) i currentLod =
     (let subsetDistance = float_mul (float_mul lodDistance modelScale) modelBias;
          screenSize = float_div subsetDistance threshold
      in if float_less lodThreshold screenSize then currentLod
         else lodLoop threshold modelScale modelBias lodThreshold rest (i + 1) (int i))"

definition selectLevelOfDetail ::
  "QSSGRenderCamera \<Rightarrow> float32 \<Rightarrow> float32 \<Rightarrow> float32 \<Rightarrow> QSSGRenderSubset \<Rightarrow> nat" where
  "selectLevelOfDetail cam lodThreshold modelScale levelOfDetailBias theSubset =
     (if lods theSubset \<noteq> [] \<and> float_less (Float 0) lodThreshold then
        (let lodDistanceMultiplier = levelOfDetailMultiplier cam;
             distanceThreshold = lodDistanceThreshold cam theSubset;
             currentLod =
               (if float_less (Float 0) levelOfDetailBias then
                  lodLoop (float_mul distanceThreshold lodDistanceMultiplier) modelScale
                    (float_div (Float 1) levelOfDetailBias) lodThreshold (lods theSubset) 0 (- 1)
                else - 1)
         in if currentLod = - 1 then 0 else nat (currentLod + 1))
      else 0)"

section \<open>Model preparer (prepareModelForRender, third loop)\<close>

text \<open>
  A model node with the members the loop reads. \<open>usesInstancing\<close> is
  \<^verbatim>\<open>model.instancing() && rhi->isFeatureSupported(QRhi::Instancing)\<close>, \<open>modelScale\<close> the
  largest component of \<^verbatim>\<open>mat44::getScale(model.globalTransform)\<close>. An entry of the
  renderable-model list pairs the node with \<open>mesh\<close>, what \<^verbatim>\<open>loadMesh\<close> stored in the
  first loop: the subsets of the mesh, or \<open>None\<close> for \<^verbatim>\<open>nullptr\<close>.
\<close>

record QSSGRenderModel =
  globalOpacity :: float32
  materials :: "QSSGRenderGraphObject option list"
  castsShadows :: bool
  receivesShadows :: bool
  receivesReflections :: bool
  castsReflections :: bool
  usedInBakedLighting :: bool
  hasTransparency :: bool
  usesInstancing :: bool
  instanceTableHasTransparency :: bool
  levelOfDetailBias :: float32
  modelScale :: float32

record QSSGRenderableNodeEntry =
  node :: QSSGRenderModel
  mesh :: "QSSGRenderSubset list option"

fun applyInputSemantic ::
  "QSSGRenderableObjectFlags \<times> bool \<times> bool \<Rightarrow> InputSemantic
     \<Rightarrow> QSSGRenderableObjectFlags \<times> bool \<times> bool" where
  "applyInputSemantic (fl, hasJoint, hasWeight) sem =
     (case sem of
        PositionSemantic \<Rightarrow> (setFlag HasAttributePosition True fl, hasJoint, hasWeight)
      | NormalSemantic \<Rightarrow> (setFlag HasAttributeNormal True fl, hasJoint, hasWeight)
      | TexCoord0Semantic \<Rightarrow> (setFlag HasAttributeTexCoord0 True fl, hasJoint, hasWeight)
      | TexCoord1Semantic \<Rightarrow> (setFlag HasAttributeTexCoord1 True fl, hasJoint, hasWeight)
      | TexCoordLightmapSemantic \<Rightarrow>
          (setFlag HasAttributeTexCoordLightmap True fl, hasJoint, hasWeight)
      | TangentSemantic \<Rightarrow> (setFlag HasAttributeTangent True fl, hasJoint, hasWeight)
      | BinormalSemantic \<Rightarrow> (setFlag HasAttributeBinormal True fl, hasJoint, hasWeight)
      | ColorSemantic \<Rightarrow> (setFlag HasAttributeColor True fl, hasJoint, hasWeight)
      | JointSemantic \<Rightarrow> (fl, True, hasWeight)
      | WeightSemantic \<Rightarrow> (fl, hasJoint, True))"

text \<open>The flags shared by all subsets of a model (lightmap loading is left out).\<close>

definition renderableFlagsForModel ::
  "QSSGRenderModel \<Rightarrow> QSSGRenderSubset list \<Rightarrow> QSSGRenderableObjectFlags" where
  "renderableFlagsForModel model subsets =
     (case subsets of
        [] \<Rightarrow> {}
      | theSubset # _ \<Rightarrow>
          (let f1 = setFlag CastsShadows (castsShadows model) {};
               f2 = setFlag ReceivesShadows (receivesShadows model) f1;
               f3 = setFlag ReceivesReflections (receivesReflections model) f2;
               f4 = setFlag CastsReflections (castsReflections model) f3;
               f5 = setFlag UsedInBakedLighting (usedInBakedLighting model) f4;
               (f6, hasJoint, hasWeight) =
                  foldl applyInputSemantic (f5, False, False) (inputs theSubset);
               f7 = setFlag HasAttributeJointAndWeight (hasJoint \<and> hasWeight) f6
           in setFlag HasAttributeMorphTarget (hasTargetsTexture theSubset) f7))"

text \<open>
  \<^verbatim>\<open>RENDER_FRAME_NEW\<close> followed by the classification into one of the three buckets:
  the new record is stored at the end of \<open>frameObjects\<close>, its index is the pointer.
\<close>

definition pushRenderableObject ::
  "QSSGCameraData \<Rightarrow> QSSGRenderableObject \<Rightarrow> QSSGLayerRenderData
     \<Rightarrow> QSSGRenderableObjectHandle \<times> QSSGLayerRenderData" where
  "pushRenderableObject cameraData ob d =
     (let theRenderableObject = length (frameObjects d);
          d1 = d\<lparr>frameObjects := frameObjects d @ [ob]\<rparr>;
          handle = \<lparr>obj = theRenderableObject,
                    cameraDistanceSq = getCameraDistanceSq ob cameraData\<rparr>
      in if RequiresScreenTexture \<in> renderableFlags ob
         then (handle, d1\<lparr>screenTextureObjects := screenTextureObjects d1 @ [handle]\<rparr>)
         else if HasTransparency \<in> renderableFlags ob
         then (handle, d1\<lparr>transparentObjects := transparentObjects d1 @ [handle]\<rparr>)
         else (handle, d1\<lparr>opaqueObjects := opaqueObjects d1 @ [handle]\<rparr>))"

text \<open>
  The state of the loop over the subsets of one model: the layer data, the layer flags and
  the local list \<^verbatim>\<open>bakedLightingObjects\<close>.
\<close>

type_synonym modelPrepState =
  "QSSGLayerRenderData \<times> QSSGLayerRenderPreparationResultFlags \<times> QSSGRenderableObjectHandle list"

definition pushSubsetRenderable ::
  "QSSGCameraData \<Rightarrow> QSSGRenderableObject \<Rightarrow> QSSGLayerRenderPreparationResultFlags
     \<Rightarrow> QSSGLayerRenderData \<Rightarrow> QSSGRenderableObjectHandle list \<Rightarrow> modelPrepState" where
  "pushSubsetRenderable cameraData ob ioFlags d bakedLightingObjects =
     (let (handle, d1) = pushRenderableObject cameraData ob d in
      (d1, ioFlags,
       if UsedInBakedLighting \<in> renderableFlags ob then bakedLightingObjects @ [handle]
       else bakedLightingObjects))"

text \<open>
  The body of the subset loop once a non-null material was found. \<open>cam\<close> is the resolved
  camera, which the level-of-detail block dereferences.
\<close>

definition prepareSubset ::
  "float32 \<Rightarrow> QSSGRenderCamera \<Rightarrow> QSSGCameraData \<Rightarrow> float32 \<Rightarrow> QSSGRenderModel
     \<Rightarrow> QSSGRenderableObjectFlags \<Rightarrow> nat \<Rightarrow> nat \<Rightarrow> QSSGRenderSubset \<Rightarrow> QSSGRenderGraphObject
     \<Rightarrow> modelPrepState \<Rightarrow> modelPrepState" where
  "prepareSubset minOpacity cam cameraData lodThreshold model flagsForModel modelIdx idx
       theSubset theMaterialObject st =
     (case st of (d, ioFlags, bakedLightingObjects) \<Rightarrow>
       (let rf0 = setFlag IsPointsTopology (pointsTopology theSubset) flagsForModel;
            rf1 = (if usesInstancing model \<and> instanceTableHasTransparency model
                   then insert HasTransparency rf0 else rf0);
            rf2 = (if hasTransparency model then insert HasTransparency rf1 else rf1);
            lod = selectLevelOfDetail cam lodThreshold (modelScale model)
                    (levelOfDetailBias model) theSubset
        in case theMaterialObject of
             DefaultMaterialObject theMaterial \<Rightarrow>
               (let (res, io1) = prepareDefaultMaterialForRender minOpacity theMaterial rf2
                                   (globalOpacity model) ioFlags
                in pushSubsetRenderable cameraData
                     \<lparr>objType = DefaultMaterialMeshSubset,
                      renderableFlags = prepRenderableFlags res,
                      worldCenterPoint = subsetCenter theSubset,
                      depthBiasSq = materialDepthBiasSq theMaterial,
                      objOpacity = prepOpacity res,
                      subsetLevelOfDetail = lod,
                      reflectionProbeIndex = - 1,
                      distanceFromReflectionProbe = 0,
                      sourceNode = modelIdx,
                      sourceSubset = idx\<rparr>
                     io1 d bakedLightingObjects)
           | CustomMaterialObject theMaterial \<Rightarrow>
               (let (res, io1) = prepareCustomMaterialForRender minOpacity theMaterial rf2
                                   (globalOpacity model) ioFlags
                in pushSubsetRenderable cameraData
                     \<lparr>objType = CustomMaterialMeshSubset,
                      renderableFlags = prepRenderableFlags res,
                      worldCenterPoint = subsetCenter theSubset,
                      depthBiasSq = customDepthBiasSq theMaterial,
                      objOpacity = prepOpacity res,
                      subsetLevelOfDetail = lod,
                      reflectionProbeIndex = - 1,
                      distanceFromReflectionProbe = 0,
                      sourceNode = modelIdx,
                      sourceSubset = idx\<rparr>
                     io1 d bakedLightingObjects)
           | OtherGraphObject \<Rightarrow> (d, ioFlags, bakedLightingObjects)))"

text \<open>
  The loop \<^verbatim>\<open>for (idx = 0; idx < subsets.size(); ++idx)\<close>: an empty material list
  leaves the loop (\<^verbatim>\<open>break\<close>), past the end of the list the last material is used
  (\<open>materialForSubset\<close>, read only when the list is not empty), a null material skips
  the subset (\<^verbatim>\<open>continue\<close>).
\<close>

definition materialForSubset :: "QSSGRenderModel \<Rightarrow> nat \<Rightarrow> QSSGRenderGraphObject option" where
  "materialForSubset model idx =
     (if idx + 1 > length (materials model) then last (materials model)
      else materials model ! idx)"

fun subsetLoop ::
  "float32 \<Rightarrow> QSSGRenderCamera \<Rightarrow> QSSGCameraData \<Rightarrow> float32 \<Rightarrow> QSSGRenderModel
     \<Rightarrow> QSSGRenderableObjectFlags \<Rightarrow> nat \<Rightarrow> nat \<Rightarrow> QSSGRenderSubset list
     \<Rightarrow> modelPrepState \<Rightarrow> modelPrepState" where
  "subsetLoop minOpacity cam cameraData lodThreshold model flagsForModel modelIdx idx [] st = st"
| "subsetLoop minOpacity cam cameraData lodThreshold model flagsForModel modelIdx idx
       (theSubset # rest) st =
     (if materials model = [] then st
      else
        (case materialForSubset model idx of
           None \<Rightarrow>
             subsetLoop minOpacity cam cameraData lodThreshold model flagsForModel modelIdx
               (idx + 1) rest st
         | Some theMaterialObject \<Rightarrow>
             subsetLoop minOpacity cam cameraData lodThreshold model flagsForModel modelIdx
               (idx + 1) rest
               (prepareSubset minOpacity cam cameraData lodThreshold model flagsForModel
                  modelIdx idx theSubset theMaterialObject st)))"

text \<open>One iteration of the loop over the renderable models.\<close>

definition prepareModel ::
  "float32 \<Rightarrow> QSSGRenderCamera \<Rightarrow> QSSGCameraData \<Rightarrow> float32 \<Rightarrow> nat \<Rightarrow> QSSGRenderableNodeEntry
     \<Rightarrow> QSSGLayerRenderData \<times> QSSGLayerRenderPreparationResultFlags
     \<Rightarrow> QSSGLayerRenderData \<times> QSSGLayerRenderPreparationResultFlags" where
  "prepareModel minOpacity cam cameraData lodThreshold modelIdx renderable st =
     (case mesh renderable of
        None \<Rightarrow> st
      | Some subsets \<Rightarrow>
          (case subsetLoop minOpacity cam cameraData lodThreshold (node renderable)
                  (renderableFlagsForModel (node renderable) subsets) modelIdx 0 subsets
                  (fst st, snd st, []) of
             (d, ioFlags, bakedLightingObjects) \<Rightarrow>
               (if bakedLightingObjects \<noteq> []
                then d\<lparr>bakedLightingModels :=
                         bakedLightingModels d @ [(modelIdx, bakedLightingObjects)]\<rparr>
                else d,
                ioFlags)))"

fun modelLoop ::
  "float32 \<Rightarrow> QSSGRenderCamera \<Rightarrow> QSSGCameraData \<Rightarrow> float32 \<Rightarrow> nat \<Rightarrow> QSSGRenderableNodeEntry list
     \<Rightarrow> QSSGLayerRenderData \<times> QSSGLayerRenderPreparationResultFlags
     \<Rightarrow> QSSGLayerRenderData \<times> QSSGLayerRenderPreparationResultFlags" where
  "modelLoop minOpacity cam cameraData lodThreshold modelIdx [] st = st"
| "modelLoop minOpacity cam cameraData lodThreshold modelIdx (renderable # rest) st =
     modelLoop minOpacity cam cameraData lodThreshold (modelIdx + 1) rest
       (prepareModel minOpacity cam cameraData lodThreshold modelIdx renderable st)"

definition prepareModelForRender ::
  "float32 \<Rightarrow> QSSGRenderCamera \<Rightarrow> QSSGCameraData \<Rightarrow> float32 \<Rightarrow> QSSGRenderableNodeEntry list
     \<Rightarrow> QSSGLayerRenderData \<times> QSSGLayerRenderPreparationResultFlags
     \<Rightarrow> QSSGLayerRenderData \<times> QSSGLayerRenderPreparationResultFlags" where
  "prepareModelForRender minOpacity cam cameraData lodThreshold renderableModels st =
     modelLoop minOpacity cam cameraData lodThreshold 0 renderableModels st"

section \<open>Particle preparer (prepareParticlesForRender)\<close>

record QSSGRenderParticles =
  particlesGlobalOpacity :: float32
  m_hasTransparency :: bool
  m_castsReflections :: bool
  particleCount :: nat
  particlesCenter :: QVector3D
  particlesDepthBiasSq :: real

definition prepareParticles ::
  "QSSGCameraData \<Rightarrow> nat \<Rightarrow> QSSGRenderParticles \<Rightarrow> QSSGLayerRenderData \<Rightarrow> QSSGLayerRenderData" where
  "prepareParticles cameraData particlesIdx particles d =
     (let f1 = setFlag CastsShadows False {};
          f2 = setFlag ReceivesShadows False f1;
          f3 = setFlag HasAttributePosition True f2;
          f4 = setFlag HasAttributeNormal True f3;
          f5 = setFlag HasAttributeTexCoord0 True f4;
          f6 = setFlag HasAttributeColor True f5;
          f7 = setFlag HasTransparency (m_hasTransparency particles) f6;
          f8 = setFlag CastsReflections (m_castsReflections particles) f7;
          opacity' = particlesGlobalOpacity particles
      in if float_less (Float 0) opacity' \<and> particleCount particles \<noteq> 0 then
           snd (pushRenderableObject cameraData
                  \<lparr>objType = Particles,
                   renderableFlags = f8,
                   worldCenterPoint = particlesCenter particles,
                   depthBiasSq = particlesDepthBiasSq particles,
                   objOpacity = opacity',
                   subsetLevelOfDetail = 0,
                   reflectionProbeIndex = - 1,
                   distanceFromReflectionProbe = 0,
                   sourceNode = particlesIdx,
                   sourceSubset = 0\<rparr> d)
         else d)"

fun particlesLoop ::
  "QSSGCameraData \<Rightarrow> nat \<Rightarrow> QSSGRenderParticles list \<Rightarrow> QSSGLayerRenderData
     \<Rightarrow> QSSGLayerRenderData" where
  "particlesLoop cameraData particlesIdx [] d = d"
| "particlesLoop cameraData particlesIdx (particles # rest) d =
     particlesLoop cameraData (particlesIdx + 1) rest
       (prepareParticles cameraData particlesIdx particles d)"

definition prepareParticlesForRender ::
  "bool \<Rightarrow> bool \<Rightarrow> QSSGCameraData \<Rightarrow> QSSGRenderParticles list \<Rightarrow> QSSGLayerRenderData
     \<Rightarrow> QSSGLayerRenderData" where
  "prepareParticlesForRender supportRgba32f supportRgba16f cameraData renderableParticles d =
     (if \<not> supportRgba32f \<and> \<not> supportRgba16f then d
      else particlesLoop cameraData 0 renderableParticles d)"

section \<open>Reflection-probe injection (prepareReflectionProbesForRender)\<close>

text \<open>
  A probe, as far as the registration reads it: whether \<^verbatim>\<open>probe->texture\<close> is set.
  The box test and the distance between the centres are computed by QSSGBounds3 and
  QVector3D from members that the injection never writes; they are the parameters
  \<open>probeIntersects i p\<close> and \<open>probeDistance i p\<close>, for the probe at index \<open>i\<close> and the
  renderable object at pointer \<open>p\<close>. The two calls on the reflection-map manager append
  an entry to \<open>reflectionMapEntries\<close>.
\<close>

record QSSGRenderReflectionProbe =
  probeHasTexture :: bool

definition injectProbe ::
  "(nat \<Rightarrow> nat \<Rightarrow> bool) \<Rightarrow> (nat \<Rightarrow> nat \<Rightarrow> real) \<Rightarrow> nat
     \<Rightarrow> QSSGRenderableObject list \<times> nat \<Rightarrow> QSSGRenderableObjectHandle
     \<Rightarrow> QSSGRenderableObject list \<times> nat" where
  "injectProbe probeIntersects probeDistance i st handle =
     (case st of (objs, reflectionObjectCount) \<Rightarrow>
       (let renderableObj = objs ! obj handle in
        if ReceivesReflections \<in> renderableFlags renderableObj
             \<and> \<not> (objType renderableObj = Particles)
        then
          (if probeIntersects i (obj handle) then
             (let distance = probeDistance i (obj handle) in
              if reflectionProbeIndex renderableObj = - 1
                   \<or> distance < distanceFromReflectionProbe renderableObj
              then (objs[obj handle :=
                           renderableObj\<lparr>reflectionProbeIndex := int i,
                                          distanceFromReflectionProbe := distance\<rparr>],
                    reflectionObjectCount + 1)
              else (objs, reflectionObjectCount))
           else (objs, reflectionObjectCount))
        else (objs, reflectionObjectCount)))"

text \<open>
  One iteration of the loop over the probes: the injection into the transparent and then
  the opaque records, followed by the registration of the probe.
\<close>

definition probeIteration ::
  "(nat \<Rightarrow> nat \<Rightarrow> bool) \<Rightarrow> (nat \<Rightarrow> nat \<Rightarrow> real) \<Rightarrow> nat \<Rightarrow> QSSGRenderReflectionProbe
     \<Rightarrow> QSSGLayerRenderData \<Rightarrow> QSSGLayerRenderData" where
  "probeIteration probeIntersects probeDistance i probe d =
     (case foldl (injectProbe probeIntersects probeDistance i)
             (foldl (injectProbe probeIntersects probeDistance i) (frameObjects d, 0)
                (transparentObjects d))
             (opaqueObjects d) of
        (objs, reflectionObjectCount) \<Rightarrow>
          (if probeHasTexture probe
           then d\<lparr>frameObjects := objs,
                  reflectionMapEntries :=
                    reflectionMapEntries d @ [TexturedReflectionMapEntry i]\<rparr>
           else if reflectionObjectCount > 0
           then d\<lparr>frameObjects := objs,
                  reflectionMapEntries :=
                    reflectionMapEntries d @ [LiveReflectionMapEntry i]\<rparr>
           else d\<lparr>frameObjects := objs\<rparr>))"

fun probeLoop ::
  "(nat \<Rightarrow> nat \<Rightarrow> bool) \<Rightarrow> (nat \<Rightarrow> nat \<Rightarrow> real) \<Rightarrow> nat \<Rightarrow> QSSGRenderReflectionProbe list
     \<Rightarrow> QSSGLayerRenderData \<Rightarrow> QSSGLayerRenderData" where
  "probeLoop probeIntersects probeDistance i [] d = d"
| "probeLoop probeIntersects probeDistance i (probe # rest) d =
     probeLoop probeIntersects probeDistance (i + 1) rest
       (probeIteration probeIntersects probeDistance i probe d)"

definition prepareReflectionProbesForRender ::
  "(nat \<Rightarrow> nat \<Rightarrow> bool) \<Rightarrow> (nat \<Rightarrow> nat \<Rightarrow> real) \<Rightarrow> QSSGRenderReflectionProbe list
     \<Rightarrow> QSSGLayerRenderData \<Rightarrow> QSSGLayerRenderData" where
  "prepareReflectionProbesForRender probeIntersects probeDistance reflectionProbes d =
     probeLoop probeIntersects probeDistance 0 reflectionProbes d"

section \<open>A layer at the start of a frame\<close>

text \<open>
  The layer data with every per-frame list empty and no camera, as a frame finds it
  before preparation; the scenes of the examples below are built from it.
\<close>

definition emptyLayerData :: QSSGLayerRenderData where
  "emptyLayerData =
     \<lparr>frameObjects = [], opaqueObjects = [], transparentObjects = [],
      screenTextureObjects = [], bakedLightingModels = [], renderedOpaqueObjects = [],
      renderedTransparentObjects = [], renderedScreenTextureObjects = [],
      renderableItem2Ds = [], renderedItem2Ds = [], reflectionMapEntries = [],
      camera = None, enableDepthTest = True\<rparr>"

text \<open>
  The binary32 value nearest to 0.01, for the minimum render opacity, and the binary32
  value nearest to 0.99, which is what \<^verbatim>\<open>1.f - .01f\<close> evaluates to.
\<close>

definition exampleMinOpacity :: float32 where
  "exampleMinOpacity = Float (10737418 / 2 ^ 30)"

definition exampleMaxOpacity :: float32 where
  "exampleMaxOpacity = Float (16609444 / 2 ^ 24)"

text \<open>A principled material with no maps, full opacity and the default blending.\<close>

definition plainMaterial :: QSSGRenderDefaultMaterial where
  "plainMaterial =
     \<lparr>materialType = PrincipledMaterial, materialDirty = False, opacity = Float 1,
      blendMode = SourceOver, alphaMode = Default, transmissionEnabled = False,
      materialDepthBiasSq = 0, colorMap = None, occlusionMap = None, heightMap = None,
      clearcoatMap = None, clearcoatRoughnessMap = None, clearcoatNormalMap = None,
      transmissionMap = None, thicknessMap = None, metalnessMap = None, emissiveMap = None,
      specularReflection = None, roughnessMap = None, opacityMap = None, bumpMap = None,
      specularMap = None, normalMap = None, translucencyMap = None\<rparr>"

text \<open>
  A subset without level-of-detail data, a model with full opacity that receives
  reflections, a perspective and an orthographic camera, the subset with level-of-detail
  distances and the two distances of its bounds from the camera plane, and the camera data
  that \<^verbatim>\<open>getCameraDirectionAndPosition\<close> falls back to.
\<close>

definition exampleSubset :: QSSGRenderSubset where
  "exampleSubset =
     \<lparr>lods = [], lodDistanceMin = Float 0, lodDistanceMax = Float 0, subsetCenter = (0, 0, 1),
      inputs = [PositionSemantic, NormalSemantic], hasTargetsTexture = False,
      pointsTopology = False\<rparr>"

definition exampleModel :: "QSSGRenderGraphObject option list \<Rightarrow> QSSGRenderModel" where
  "exampleModel mats =
     \<lparr>globalOpacity = Float 1, materials = mats, castsShadows = True, receivesShadows = True,
      receivesReflections = True, castsReflections = True, usedInBakedLighting = False,
      hasTransparency = False, usesInstancing = False, instanceTableHasTransparency = False,
      levelOfDetailBias = Float 1, modelScale = Float 1\<rparr>"

definition exampleCamera :: QSSGRenderCamera where
  "exampleCamera = \<lparr>orthographicCamera = False, levelOfDetailMultiplier = Float 1\<rparr>"

definition orthographicExampleCamera :: QSSGRenderCamera where
  "orthographicExampleCamera = \<lparr>orthographicCamera = True, levelOfDetailMultiplier = Float 1\<rparr>"

definition exampleLodSubset :: "float32 list \<Rightarrow> float32 \<Rightarrow> float32 \<Rightarrow> QSSGRenderSubset" where
  "exampleLodSubset distances distanceMin distanceMax =
     exampleSubset\<lparr>lods := distances, lodDistanceMin := distanceMin,
                   lodDistanceMax := distanceMax\<rparr>"

definition exampleCameraData :: QSSGCameraData where
  "exampleCameraData = \<lparr>direction = (0, 0, - 1), position = (0, 0, 0)\<rparr>"

text \<open>
  A scene: a model with three subsets whose materials are opaque, half transparent and
  transmissive, and a particle system with transparency. \<open>exampleFrame\<close> is the layer
  after the two preparers ran on it from the start of a frame.
\<close>

definition exampleModels :: "QSSGRenderableNodeEntry list" where
  "exampleModels =
     [\<lparr>node = exampleModel
          [Some (DefaultMaterialObject plainMaterial),
           Some (DefaultMaterialObject (plainMaterial\<lparr>opacity := Float (1 / 2)\<rparr>)),
           Some (DefaultMaterialObject (plainMaterial\<lparr>transmissionEnabled := True\<rparr>))],
       mesh = Some [exampleSubset, exampleSubset, exampleSubset]\<rparr>]"

definition exampleParticles :: "QSSGRenderParticles list" where
  "exampleParticles =
     [\<lparr>particlesGlobalOpacity = Float 1, m_hasTransparency = True, m_castsReflections = False,
       particleCount = 10, particlesCenter = (0, 0, 2), particlesDepthBiasSq = 0\<rparr>]"

definition exampleFrame :: QSSGLayerRenderData where
  "exampleFrame =
     prepareParticlesForRender True True exampleCameraData exampleParticles
       (fst (prepareModelForRender exampleMinOpacity exampleCamera exampleCameraData (Float 1)
               exampleModels
               (emptyLayerData, initialPreparationFlags False [])))"

section \<open>Predicates of the statements\<close>

text \<open>
  The sources of the transparency flag of a default material that do not depend on the
  value of the opacity: a blend mode other than SourceOver, an opacity map, the alpha mode
  Blend, or a diffuse, opacity or translucency texture that has transparency.
\<close>

definition imageAddsTransparency :: "QSSGRenderImage option \<times> ImageType \<Rightarrow> bool" where
  "imageAddsTransparency p =
     (case fst p of
        None \<Rightarrow> False
      | Some img \<Rightarrow>
          textureLoaded img \<and> textureHasTransparency img
          \<and> (snd p = Diffuse \<or> snd p = Opacity \<or> snd p = Translucency))"

definition otherTransparencyTriggers :: "QSSGRenderDefaultMaterial \<Rightarrow> bool" where
  "otherTransparencyTriggers m =
     (blendMode m \<noteq> SourceOver \<or> opacityMap m \<noteq> None \<or> alphaMode m = Blend
      \<or> (\<exists>p \<in> set (materialImages m). imageAddsTransparency p))"

text \<open>
  The three buckets classify the renderable records of the frame: the pointers held by
  the buckets are, counted with multiplicity, exactly the pointers of the records in the
  store, and the bucket of a record is the one its flags ask for, the screen texture
  before transparency before opaque.
\<close>

definition bucketsClassified :: "QSSGLayerRenderData \<Rightarrow> bool" where
  "bucketsClassified d =
     (mset (map obj (screenTextureObjects d @ transparentObjects d @ opaqueObjects d))
        = mset [0..<length (frameObjects d)]
      \<and> (\<forall>h \<in> set (screenTextureObjects d).
            RequiresScreenTexture \<in> renderableFlags (frameObjects d ! obj h))
      \<and> (\<forall>h \<in> set (transparentObjects d).
            RequiresScreenTexture \<notin> renderableFlags (frameObjects d ! obj h)
            \<and> HasTransparency \<in> renderableFlags (frameObjects d ! obj h))
      \<and> (\<forall>h \<in> set (opaqueObjects d).
            RequiresScreenTexture \<notin> renderableFlags (frameObjects d ! obj h)
            \<and> HasTransparency \<notin> renderableFlags (frameObjects d ! obj h)))"






text \<open>
  The records the probe injection looks at: those that receive reflections and are not
  particle records.
\<close>

definition receivesProbes :: "QSSGRenderableObject \<Rightarrow> bool" where
  "receivesProbes ob = (ReceivesReflections \<in> renderableFlags ob \<and> objType ob \<noteq> Particles)"

text \<open>
  What one call of \<open>injectProbe\<close> does to the record at pointer \<open>p\<close>: \<open>probeTriggers\<close>
  is the condition under which the record is assigned to the probe at index \<open>i\<close>,
  \<open>probeAssign\<close> the assignment.
\<close>

definition probeTriggers ::
  "(nat \<Rightarrow> nat \<Rightarrow> bool) \<Rightarrow> (nat \<Rightarrow> nat \<Rightarrow> real) \<Rightarrow> nat \<Rightarrow> nat \<Rightarrow> QSSGRenderableObject \<Rightarrow> bool" where
  "probeTriggers probeIntersects probeDistance i p ob =
     (receivesProbes ob \<and> probeIntersects i p
      \<and> (reflectionProbeIndex ob = - 1 \<or> probeDistance i p < distanceFromReflectionProbe ob))"

definition probeAssign ::
  "(nat \<Rightarrow> nat \<Rightarrow> real) \<Rightarrow> nat \<Rightarrow> nat \<Rightarrow> QSSGRenderableObject \<Rightarrow> QSSGRenderableObject" where
  "probeAssign probeDistance i p ob =
     ob\<lparr>reflectionProbeIndex := int i, distanceFromReflectionProbe := probeDistance i p\<rparr>"

text \<open>
  The record \<open>ob\<close> at pointer \<open>p\<close> holds the nearest of the first \<open>k\<close> probes that
  intersect it: it is unassigned when none of them intersects it, and otherwise assigned
  to an intersecting probe that is no farther than any other intersecting one and
  strictly nearer than every intersecting one before it in the list.
\<close>

definition nearestProbeOf ::
  "(nat \<Rightarrow> nat \<Rightarrow> bool) \<Rightarrow> (nat \<Rightarrow> nat \<Rightarrow> real) \<Rightarrow> nat \<Rightarrow> nat \<Rightarrow> QSSGRenderableObject \<Rightarrow> bool" where
  "nearestProbeOf probeIntersects probeDistance k p ob =
     ((reflectionProbeIndex ob = - 1 \<and> (\<forall>j<k. \<not> probeIntersects j p))
      \<or> (\<exists>m<k. reflectionProbeIndex ob = int m
                 \<and> distanceFromReflectionProbe ob = probeDistance m p
                 \<and> probeIntersects m p
                 \<and> (\<forall>j<k. probeIntersects j p \<longrightarrow> probeDistance m p \<le> probeDistance j p)
                 \<and> (\<forall>j<m. probeIntersects j p \<longrightarrow> probeDistance m p < probeDistance j p)))"

text \<open>
  The probe at index \<open>k\<close> intersects the record at pointer \<open>p\<close> and is strictly nearer
  to it than every probe before it in the list that intersects the record.
\<close>

definition nearerThanEarlierProbes ::
  "(nat \<Rightarrow> nat \<Rightarrow> bool) \<Rightarrow> (nat \<Rightarrow> nat \<Rightarrow> real) \<Rightarrow> nat \<Rightarrow> nat \<Rightarrow> bool" where
  "nearerThanEarlierProbes probeIntersects probeDistance k p =
     (probeIntersects k p
      \<and> (\<forall>j<k. probeIntersects j p \<longrightarrow> probeDistance k p < probeDistance j p))"

text \<open>
  A layer with one opaque record that receives reflections and is not yet assigned to a
  probe.
\<close>

definition exampleProbeLayer :: QSSGLayerRenderData where
  "exampleProbeLayer =
     emptyLayerData
       \<lparr>frameObjects :=
          [\<lparr>objType = DefaultMaterialMeshSubset, renderableFlags = {ReceivesReflections},
            worldCenterPoint = (0, 0, 0), depthBiasSq = 0, objOpacity = Float 1,
            subsetLevelOfDetail = 0, reflectionProbeIndex = - 1,
            distanceFromReflectionProbe = 0, sourceNode = 0, sourceSubset = 0\<rparr>],
        opaqueObjects := [\<lparr>obj = 0, cameraDistanceSq = 0\<rparr>]\<rparr>"

chapter \<open>Properties\<close>

section \<open>Single-precision arithmetic\<close>

lemma binade_numeral:
  "binade (numeral k) m =
     (if 2 powi (int (pred_numeral k) - 125) \<le> m then int (pred_numeral k) - 125
      else binade (pred_numeral k) m)"
  by (simp add: numeral_eq_Suc)

lemma float_mul_Float:
  "float_mul (Float x) (Float y) = float_round ((x < 0) \<noteq> (y < 0)) \<bar>x * y\<bar>"
  by (simp add: float_mul_def float_infinite_def)

lemma float_div_Float:
  "y \<noteq> 0 \<Longrightarrow> float_div (Float x) (Float y) = float_round ((x < 0) \<noteq> (y < 0)) \<bar>x / y\<bar>"
  by (simp add: float_div_def float_infinite_def float_zero_def)

lemma float_sub_Float:
  "float_sub (Float x) (Float y) =
     (if x = y then Float 0 else float_round (x < y) \<bar>x - y\<bar>)"
  by (simp add: float_sub_def float_infinite_def Let_def)

lemma float_div_zero:
  "float_div (Float x) (Float 0) = (if x = 0 then NaN else float_infinity (x < 0))"
  "float_div (Float x) MinusZero = (if x = 0 then NaN else float_infinity (\<not> x < 0))"
  by (simp_all add: float_div_def float_infinite_def float_zero_def)

lemmas float_eval =
  float_mul_Float float_div_Float float_sub_Float float_div_zero float_round_def
  binade_numeral round_ties_even_def float_infinity_def Let_def

lemma float_mul_MinusZero:
  "float_mul MinusZero (Float y) = (if y < 0 then Float 0 else MinusZero)"
proof -
  have "float_mul MinusZero (Float y) = float_round (\<not> y < 0) 0"
    by (simp add: float_mul_def float_infinite_def)
  also have "\<dots> = (if y < 0 then Float 0 else MinusZero)"
    by (simp add: float_round_def binade_numeral round_ties_even_def Let_def)
  finally show ?thesis .
qed

lemma float_less_irrefl: "\<not> float_less a a"
  by (cases a) simp_all

lemma float_less_asym: "float_less a b \<Longrightarrow> \<not> float_less b a"
  by (cases a; cases b) simp_all

lemma float_less_not_NaN: "float_less a b \<Longrightarrow> a \<noteq> NaN \<and> b \<noteq> NaN"
  by (cases a; cases b) simp_all

lemma float_less_trans: "float_less a b \<Longrightarrow> float_less b c \<Longrightarrow> float_less a c"
  by (cases a; cases b; cases c) simp_all

lemma float_less_le_trans: "float_less a b \<Longrightarrow> float_le b c \<Longrightarrow> float_less a c"
  by (cases a; cases b; cases c) (simp_all add: float_le_def)

lemma float_le_less_trans: "float_le a b \<Longrightarrow> float_less b c \<Longrightarrow> float_less a c"
  by (cases a; cases b; cases c) (simp_all add: float_le_def)

lemma float_le_trans: "float_le a b \<Longrightarrow> float_le b c \<Longrightarrow> float_le a c"
  by (cases a; cases b; cases c) (simp_all add: float_le_def)

lemma float_less_imp_le: "float_less a b \<Longrightarrow> float_le a b"
  by (cases a; cases b) (simp_all add: float_le_def)

lemma float_sub_example: "float_sub (Float 1) exampleMinOpacity = exampleMaxOpacity"
  by (simp add: exampleMinOpacity_def exampleMaxOpacity_def float_eval)

lemma example_products:
  "float_mul (Float 1) (Float 1) = Float 1"
  "float_mul (Float 1) (Float (1 / 2)) = Float (1 / 2)"
  by (simp_all add: float_eval)

lemma example_opacity_tests:
  "float_le exampleMinOpacity (Float 1)" "\<not> float_less (Float 1) exampleMinOpacity"
  "float_less exampleMaxOpacity (Float 1)"
  "float_le exampleMinOpacity (Float (1 / 2))" "\<not> float_less (Float (1 / 2)) exampleMinOpacity"
  "\<not> float_less exampleMaxOpacity (Float (1 / 2))"
  "float_less (Float 0) (Float 1)"
  by (simp_all add: exampleMinOpacity_def exampleMaxOpacity_def float_le_def)


section \<open>Light and shadow budgets\<close>

lemma collectRenderableLights_inv:
  "collectRenderableLights S xs (c, h, acc) = (c', h', rl) \<Longrightarrow>
     map light rl = map light acc @ xs \<and> length rl = length acc + length xs
     \<and> take (length acc) rl = acc
     \<and> (\<forall>i<length xs. shadows (rl ! (length acc + i))
            = (mightCastShadows (xs ! i) \<and> c + length (filter mightCastShadows (take i xs)) < S))
     \<and> c' = c + length (filter shadows (drop (length acc) rl))"
proof (induction xs arbitrary: c h acc c' h' rl)
  case Nil
  then show ?case by simp
next
  case (Cons x xs)
  define s where "s = (mightCastShadows x \<and> c < S)"
  define c1 where "c1 = c + (if s then 1 else 0)"
  define acc1 where "acc1 = acc @ [\<lparr>light = x, shadows = s\<rparr>]"
  from Cons.prems have run: "collectRenderableLights S xs (c1, h \<or> m_scope x \<noteq> None, acc1) = (c', h', rl)"
    by (simp add: s_def c1_def acc1_def mightCastShadows_def Let_def)
  note ih = Cons.IH[OF run]
  have len: "length acc1 = Suc (length acc)" by (simp add: acc1_def)
  from ih have tk: "take (Suc (length acc)) rl = acc1" by (simp add: len)
  have lrl: "length rl = Suc (length acc) + length xs" using ih len by simp
  have nth0: "rl ! length acc = \<lparr>light = x, shadows = s\<rparr>"
  proof -
    have "rl ! length acc = (take (Suc (length acc)) rl) ! length acc" by simp
    also have "\<dots> = acc1 ! length acc" by (simp only: tk)
    finally show ?thesis by (simp add: acc1_def)
  qed
  have tk0: "take (length acc) rl = acc"
  proof -
    have "take (length acc) rl = take (length acc) (take (Suc (length acc)) rl)" by (simp add: min_def)
    also have "\<dots> = take (length acc) acc1" by (simp only: tk)
    finally show ?thesis by (simp add: acc1_def)
  qed
  have m: "map light rl = map light acc @ x # xs" using ih by (simp add: acc1_def)
  have flags: "\<forall>i<length (x # xs). shadows (rl ! (length acc + i))
            = (mightCastShadows ((x # xs) ! i) \<and> c + length (filter mightCastShadows (take i (x # xs))) < S)"
  proof (intro allI impI)
    fix i assume i: "i < length (x # xs)"
    show "shadows (rl ! (length acc + i))
            = (mightCastShadows ((x # xs) ! i) \<and> c + length (filter mightCastShadows (take i (x # xs))) < S)"
    proof (cases i)
      case 0
      then show ?thesis using nth0 by (simp add: s_def)
    next
      case (Suc j)
      with i have j: "j < length xs" by simp
      from ih j have "shadows (rl ! (length acc1 + j))
            = (mightCastShadows (xs ! j) \<and> c1 + length (filter mightCastShadows (take j xs)) < S)" by blast
      then show ?thesis using Suc by (auto simp: len c1_def s_def)
    qed
  qed
  have cnt: "c' = c + length (filter shadows (drop (length acc) rl))"
  proof -
    have "drop (length acc) rl = rl ! length acc # drop (Suc (length acc)) rl"
      using lrl by (simp add: Cons_nth_drop_Suc)
    then show ?thesis using ih nth0 by (simp add: len c1_def)
  qed
  show ?case using m lrl tk0 flags cnt by simp
qed

lemma selectRenderableLights_props:
  assumes "selectRenderableLights L S lights = (c, h, rl)"
  shows "map light rl = take (min L (length lights)) (rev lights)"
    and "length rl = min (length lights) L"
    and "\<forall>i<length rl. shadows (rl ! i)
            = (mightCastShadows (light (rl ! i)) \<and> length (filter mightCastShadows (take i (map light rl))) < S)"
    and "c = length (filter shadows rl)"
proof -
  let ?xs = "take (min L (length lights)) (rev lights)"
  from assms have run: "collectRenderableLights S ?xs (0, False, []) = (c, h, rl)"
    by (simp add: selectRenderableLights_def)
  note inv = collectRenderableLights_inv[OF run]
  show m: "map light rl = ?xs" using inv by simp
  show l: "length rl = min (length lights) L" using inv by (simp add: min.commute)
  show "c = length (filter shadows rl)" using inv by simp
  show "\<forall>i<length rl. shadows (rl ! i)
            = (mightCastShadows (light (rl ! i)) \<and> length (filter mightCastShadows (take i (map light rl))) < S)"
  proof (intro allI impI)
    fix i assume i: "i < length rl"
    have lx: "length ?xs = length rl" using inv by simp
    have "light (rl ! i) = ?xs ! i" using m i by (metis nth_map)
    moreover from inv i lx have "shadows (rl ! i) = (mightCastShadows (?xs ! i) \<and> 0 + length (filter mightCastShadows (take i ?xs)) < S)"
      by (metis add_0 list.size(3))
    ultimately show "shadows (rl ! i)
            = (mightCastShadows (light (rl ! i)) \<and> length (filter mightCastShadows (take i (map light rl))) < S)"
      using m by simp
  qed
qed


text \<open>
  Claim C4. The lights selected for the frame are the first \<open>min N L_max\<close> lights of the
  reversed classified list, \<open>L_max\<close> being the reduced budget exactly when the feature
  \<open>ReduceMaxNumLights\<close> is set; the selected light at position \<open>i\<close> is flagged as
  shadow casting exactly when it is shadow eligible (\<open>m_castShadow\<close> and not
  \<open>m_fullyBaked\<close>) and fewer than \<open>S_max\<close> eligible lights precede it in the selection.
\<close>

theorem light_and_shadow_budget:
  "length (snd (snd (selectRenderableLights (effectiveMaxLightCount maxNumLights reducedMaxNumLights features) maxNumShadowMaps lights)))
           = min (length lights) (if ReduceMaxNumLights \<in> features then reducedMaxNumLights else maxNumLights)
       \<and> map light (snd (snd (selectRenderableLights (effectiveMaxLightCount maxNumLights reducedMaxNumLights features) maxNumShadowMaps lights)))
           = take (min (if ReduceMaxNumLights \<in> features then reducedMaxNumLights else maxNumLights) (length lights)) (rev lights)
       \<and> (\<forall>i < length (snd (snd (selectRenderableLights (effectiveMaxLightCount maxNumLights reducedMaxNumLights features) maxNumShadowMaps lights))).
            shadows (snd (snd (selectRenderableLights (effectiveMaxLightCount maxNumLights reducedMaxNumLights features) maxNumShadowMaps lights)) ! i)
            = (mightCastShadows (rev lights ! i)
               \<and> length (filter mightCastShadows (take i (rev lights))) < maxNumShadowMaps))"
proof -
  let ?L = "effectiveMaxLightCount maxNumLights reducedMaxNumLights features"
  obtain c h rl where run: "selectRenderableLights ?L maxNumShadowMaps lights = (c, h, rl)"
    by (cases "selectRenderableLights ?L maxNumShadowMaps lights") auto
  note p = selectRenderableLights_props[OF run]
  have L: "?L = (if ReduceMaxNumLights \<in> features then reducedMaxNumLights else maxNumLights)"
    by (simp add: effectiveMaxLightCount_def)
  have 1: "length rl = min (length lights) ?L" by (rule p(2))
  have 2: "map light rl = take (min ?L (length lights)) (rev lights)" by (rule p(1))
  have 3: "\<forall>i<length rl. shadows (rl ! i) = (mightCastShadows (rev lights ! i)
               \<and> length (filter mightCastShadows (take i (rev lights))) < maxNumShadowMaps)"
  proof (intro allI impI)
    fix i assume i: "i < length rl"
    then have i2: "i < min ?L (length lights)" using 1 by (simp add: min.commute)
    have a: "light (rl ! i) = rev lights ! i"
    proof -
      have "light (rl ! i) = map light rl ! i" using i by simp
      also have "\<dots> = take (min ?L (length lights)) (rev lights) ! i" by (simp only: 2)
      also have "\<dots> = rev lights ! i" using i2 by simp
      finally show ?thesis .
    qed
    have b: "take i (map light rl) = take i (rev lights)"
      using i2 by (simp only: 2) (simp add: min_def)
    from p(3) i have "shadows (rl ! i) = (mightCastShadows (light (rl ! i))
          \<and> length (filter mightCastShadows (take i (map light rl))) < maxNumShadowMaps)" by blast
    then show "shadows (rl ! i) = (mightCastShadows (rev lights ! i)
               \<and> length (filter mightCastShadows (take i (rev lights))) < maxNumShadowMaps)"
      by (simp only: a b)
  qed
  have rl_eq: "snd (snd (selectRenderableLights ?L maxNumShadowMaps lights)) = rl"
    using run by simp
  show ?thesis unfolding rl_eq L[symmetric] using 1 2 3 by blast
qed

theorem light_and_shadow_budget_witness:
  "(0::nat) < length (snd (snd (selectRenderableLights (effectiveMaxLightCount 2 1 {}) 1
        [\<lparr>lightNode = 0, m_castShadow = True, m_fullyBaked = False, m_scope = None\<rparr>,
         \<lparr>lightNode = 1, m_castShadow = True, m_fullyBaked = False, m_scope = None\<rparr>,
         \<lparr>lightNode = 2, m_castShadow = True, m_fullyBaked = False, m_scope = None\<rparr>])))
   \<and> Suc 0 < length (snd (snd (selectRenderableLights (effectiveMaxLightCount 2 1 {}) 1
        [\<lparr>lightNode = 0, m_castShadow = True, m_fullyBaked = False, m_scope = None\<rparr>,
         \<lparr>lightNode = 1, m_castShadow = True, m_fullyBaked = False, m_scope = None\<rparr>,
         \<lparr>lightNode = 2, m_castShadow = True, m_fullyBaked = False, m_scope = None\<rparr>])))
   \<and> snd (snd (selectRenderableLights (effectiveMaxLightCount 2 1 {}) 1
        [\<lparr>lightNode = 0, m_castShadow = True, m_fullyBaked = False, m_scope = None\<rparr>,
         \<lparr>lightNode = 1, m_castShadow = True, m_fullyBaked = False, m_scope = None\<rparr>,
         \<lparr>lightNode = 2, m_castShadow = True, m_fullyBaked = False, m_scope = None\<rparr>]))
     = [\<lparr>light = \<lparr>lightNode = 2, m_castShadow = True, m_fullyBaked = False, m_scope = None\<rparr>,
         shadows = True\<rparr>,
        \<lparr>light = \<lparr>lightNode = 1, m_castShadow = True, m_fullyBaked = False, m_scope = None\<rparr>,
         shadows = False\<rparr>]"
  using light_and_shadow_budget [of 2 1 "{}" 1
        "[\<lparr>lightNode = 0, m_castShadow = True, m_fullyBaked = False, m_scope = None\<rparr>,
         \<lparr>lightNode = 1, m_castShadow = True, m_fullyBaked = False, m_scope = None\<rparr>,
         \<lparr>lightNode = 2, m_castShadow = True, m_fullyBaked = False, m_scope = None\<rparr>]"]
  by (simp add: selectRenderableLights_def effectiveMaxLightCount_def)

section \<open>Camera resolution\<close>

lemma searchCameras_find:
  "distinct cameras \<Longrightarrow>
     snd (searchCameras calc isActive store cameras)
       = find (\<lambda>p. isActive (calc (store p))) cameras"
proof (induction cameras arbitrary: store)
  case Nil
  then show ?case by simp
next
  case (Cons theCamera rest)
  let ?store' = "store(theCamera := calc (store theCamera))"
  from Cons.prems have notin: "theCamera \<notin> set rest" and d: "distinct rest" by simp_all
  have same: "find (\<lambda>p. isActive (calc (?store' p))) rest
                = find (\<lambda>p. isActive (calc (store p))) rest"
    using notin by (intro find_cong) auto
  show ?case
  proof (cases "isActive (calc (store theCamera))")
    case True
    then show ?thesis by (simp add: Let_def)
  next
    case False
    have "snd (searchCameras calc isActive store (theCamera # rest))
            = snd (searchCameras calc isActive ?store' rest)"
      using False by (simp add: Let_def)
    also have "\<dots> = find (\<lambda>p. isActive (calc (?store' p))) rest"
      by (rule Cons.IH[OF d])
    also have "\<dots> = find (\<lambda>p. isActive (calc (store p))) rest"
      by (rule same)
    also have "\<dots> = find (\<lambda>p. isActive (calc (store p))) (theCamera # rest)"
      using False by simp
    finally show ?thesis .
  qed
qed

text \<open>
  Claim C5. An explicit camera is selected exactly when it is active after its global
  variables were recomputed, and otherwise no camera is selected, whatever the classified
  camera list holds; without an explicit camera the first camera of the classified list
  (every node occurs in it once) that is active after its recomputation is selected.
\<close>

theorem camera_resolution:
  "snd (resolveCamera calc isActive store (Some cam) cameras)
       = (if isActive (calc (store cam)) then Some cam else None)
   \<and> (distinct cameras \<longrightarrow>
        snd (resolveCamera calc isActive store None cameras)
          = find (\<lambda>p. isActive (calc (store p))) cameras)"
  by (simp add: resolveCamera_def Let_def searchCameras_find)

theorem camera_resolution_witness:
  "distinct [3, 5, 8 :: nat]
   \<and> snd (resolveCamera (\<lambda>c :: bool \<times> bool. (fst c, fst c)) snd
            (\<lambda>p. (p = 5 \<or> p = 8, False)) None [3, 5, 8]) = Some 5
   \<and> snd (resolveCamera (\<lambda>c :: bool \<times> bool. (fst c, fst c)) snd
            (\<lambda>p. (p = 5 \<or> p = 8, False)) (Some 3) [3, 5, 8]) = None"
  using camera_resolution [of "\<lambda>c :: bool \<times> bool. (fst c, fst c)" snd
            "\<lambda>p. (p = 5 \<or> p = 8, False)" 3 "[3, 5, 8]"]
  by simp

section \<open>Pass scheduling\<close>





section \<open>Sorting\<close>







section \<open>Render-list sorter\<close>






section \<open>Opacity of a material\<close>

lemma checkImageAndPrepare_HasTransparency:
  "(HasTransparency \<in> checkImageAndPrepare fl p)
     = (HasTransparency \<in> fl \<or> imageAddsTransparency p)"
  by (cases p; cases "fst p")
     (auto simp: prepareImageForRender_def imageAddsTransparency_def Let_def)

lemma checkImageAndPrepare_CompletelyTransparent:
  "(CompletelyTransparent \<in> checkImageAndPrepare fl p) = (CompletelyTransparent \<in> fl)"
  by (cases p; cases "fst p") (auto simp: prepareImageForRender_def Let_def)

lemma images_HasTransparency:
  "(HasTransparency \<in> foldl checkImageAndPrepare fl imgs)
     = (HasTransparency \<in> fl \<or> (\<exists>p \<in> set imgs. imageAddsTransparency p))"
  by (induction imgs arbitrary: fl) (auto simp: checkImageAndPrepare_HasTransparency)

lemma images_CompletelyTransparent:
  "(CompletelyTransparent \<in> foldl checkImageAndPrepare fl imgs) = (CompletelyTransparent \<in> fl)"
  by (induction imgs arbitrary: fl) (auto simp: checkImageAndPrepare_CompletelyTransparent)

lemma default_opacity_low:
  assumes "float_le (Float 0) minOpacity" "float_le minOpacity (float_sub (Float 1) minOpacity)"
    and "float_less (float_mul inOpacity (opacity m)) minOpacity"
  shows "prepOpacity (fst (prepareDefaultMaterialForRender minOpacity m fl inOpacity io)) = Float 0"
    and "HasTransparency \<in> prepRenderableFlags (fst (prepareDefaultMaterialForRender minOpacity m fl inOpacity io))"
    and "CompletelyTransparent \<in> prepRenderableFlags (fst (prepareDefaultMaterialForRender minOpacity m fl inOpacity io))"
proof -
  have "float_le (Float 0) (float_sub (Float 1) minOpacity)"
    using assms(1,2) by (rule float_le_trans)
  then have n: "\<not> float_less (float_sub (Float 1) minOpacity) (Float 0)"
    by (simp add: float_le_def)
  show "prepOpacity (fst (prepareDefaultMaterialForRender minOpacity m fl inOpacity io)) = Float 0"
    using assms(3) n by (simp add: prepareDefaultMaterialForRender_def Let_def)
  show "HasTransparency \<in> prepRenderableFlags (fst (prepareDefaultMaterialForRender minOpacity m fl inOpacity io))"
    using assms(3) n by (simp add: prepareDefaultMaterialForRender_def Let_def)
  show "CompletelyTransparent \<in> prepRenderableFlags (fst (prepareDefaultMaterialForRender minOpacity m fl inOpacity io))"
    using assms(3) n by (simp add: prepareDefaultMaterialForRender_def Let_def)
qed

lemma default_opacity_high:
  assumes "float_le minOpacity (float_sub (Float 1) minOpacity)"
    and "float_less (float_sub (Float 1) minOpacity) (float_mul inOpacity (opacity m))"
  shows "prepOpacity (fst (prepareDefaultMaterialForRender minOpacity m fl inOpacity io)) = Float 1"
    and "(HasTransparency \<in> prepRenderableFlags (fst (prepareDefaultMaterialForRender minOpacity m fl inOpacity io)))
           = (HasTransparency \<in> fl \<or> otherTransparencyTriggers m)"
    and "(CompletelyTransparent \<in> prepRenderableFlags (fst (prepareDefaultMaterialForRender minOpacity m fl inOpacity io)))
           = (CompletelyTransparent \<in> fl)"
proof -
  have lt: "float_less minOpacity (float_mul inOpacity (opacity m))"
    using assms by (rule float_le_less_trans)
  then have ge: "float_le minOpacity (float_mul inOpacity (opacity m))"
    and nlt: "\<not> float_less (float_mul inOpacity (opacity m)) minOpacity"
    by (simp_all add: float_less_imp_le float_less_asym)
  show "prepOpacity (fst (prepareDefaultMaterialForRender minOpacity m fl inOpacity io)) = Float 1"
    using assms(2) ge nlt by (simp add: prepareDefaultMaterialForRender_def Let_def)
  show "(HasTransparency \<in> prepRenderableFlags (fst (prepareDefaultMaterialForRender minOpacity m fl inOpacity io)))
           = (HasTransparency \<in> fl \<or> otherTransparencyTriggers m)"
    using assms(2) ge nlt
    by (auto simp: prepareDefaultMaterialForRender_def Let_def images_HasTransparency
          otherTransparencyTriggers_def)
  show "(CompletelyTransparent \<in> prepRenderableFlags (fst (prepareDefaultMaterialForRender minOpacity m fl inOpacity io)))
           = (CompletelyTransparent \<in> fl)"
    using assms(2) ge nlt
    by (auto simp: prepareDefaultMaterialForRender_def Let_def images_CompletelyTransparent)
qed

lemma default_opacity_between:
  assumes "\<not> float_less (float_mul inOpacity (opacity m)) minOpacity"
    and "\<not> float_less (float_sub (Float 1) minOpacity) (float_mul inOpacity (opacity m))"
  shows "prepOpacity (fst (prepareDefaultMaterialForRender minOpacity m fl inOpacity io))
           = float_mul inOpacity (opacity m)"
    and "HasTransparency \<in> prepRenderableFlags (fst (prepareDefaultMaterialForRender minOpacity m fl inOpacity io))"
    and "(CompletelyTransparent \<in> prepRenderableFlags (fst (prepareDefaultMaterialForRender minOpacity m fl inOpacity io)))
           = (CompletelyTransparent \<in> fl)"
  using assms
  by (auto simp: prepareDefaultMaterialForRender_def Let_def images_CompletelyTransparent)

lemma custom_opacity_low:
  assumes "float_le (Float 0) minOpacity" "float_le minOpacity (float_sub (Float 1) minOpacity)"
    and "float_less inOpacity minOpacity"
  shows "prepOpacity (fst (prepareCustomMaterialForRender minOpacity cm fl inOpacity io)) = Float 0"
    and "HasTransparency \<in> prepRenderableFlags (fst (prepareCustomMaterialForRender minOpacity cm fl inOpacity io))"
    and "CompletelyTransparent \<in> prepRenderableFlags (fst (prepareCustomMaterialForRender minOpacity cm fl inOpacity io))"
proof -
  have "float_le (Float 0) (float_sub (Float 1) minOpacity)"
    using assms(1,2) by (rule float_le_trans)
  then have n: "\<not> float_less (float_sub (Float 1) minOpacity) (Float 0)"
    by (simp add: float_le_def)
  show "prepOpacity (fst (prepareCustomMaterialForRender minOpacity cm fl inOpacity io)) = Float 0"
    using assms(3) n by (simp add: prepareCustomMaterialForRender_def Let_def)
  show "HasTransparency \<in> prepRenderableFlags (fst (prepareCustomMaterialForRender minOpacity cm fl inOpacity io))"
    using assms(3) n by (simp add: prepareCustomMaterialForRender_def Let_def)
  show "CompletelyTransparent \<in> prepRenderableFlags (fst (prepareCustomMaterialForRender minOpacity cm fl inOpacity io))"
    using assms(3) n by (simp add: prepareCustomMaterialForRender_def Let_def)
qed

lemma custom_opacity_high:
  assumes "float_le minOpacity (float_sub (Float 1) minOpacity)"
    and "float_less (float_sub (Float 1) minOpacity) inOpacity"
  shows "prepOpacity (fst (prepareCustomMaterialForRender minOpacity cm fl inOpacity io)) = Float 1"
    and "(HasTransparency \<in> prepRenderableFlags (fst (prepareCustomMaterialForRender minOpacity cm fl inOpacity io)))
           = (HasTransparency \<in> fl \<or> Blending \<in> m_renderFlags cm)"
    and "(CompletelyTransparent \<in> prepRenderableFlags (fst (prepareCustomMaterialForRender minOpacity cm fl inOpacity io)))
           = (CompletelyTransparent \<in> fl)"
proof -
  have "float_less minOpacity inOpacity"
    using assms by (rule float_le_less_trans)
  then have nlt: "\<not> float_less inOpacity minOpacity"
    by (simp add: float_less_asym)
  show "prepOpacity (fst (prepareCustomMaterialForRender minOpacity cm fl inOpacity io)) = Float 1"
    using assms(2) nlt by (simp add: prepareCustomMaterialForRender_def Let_def)
  show "(HasTransparency \<in> prepRenderableFlags (fst (prepareCustomMaterialForRender minOpacity cm fl inOpacity io)))
           = (HasTransparency \<in> fl \<or> Blending \<in> m_renderFlags cm)"
    using assms(2) nlt by (auto simp: prepareCustomMaterialForRender_def Let_def)
  show "(CompletelyTransparent \<in> prepRenderableFlags (fst (prepareCustomMaterialForRender minOpacity cm fl inOpacity io)))
           = (CompletelyTransparent \<in> fl)"
    using assms(2) nlt by (auto simp: prepareCustomMaterialForRender_def Let_def)
qed

lemma custom_opacity_between:
  assumes "\<not> float_less inOpacity minOpacity"
    and "\<not> float_less (float_sub (Float 1) minOpacity) inOpacity"
  shows "prepOpacity (fst (prepareCustomMaterialForRender minOpacity cm fl inOpacity io)) = inOpacity"
    and "HasTransparency \<in> prepRenderableFlags (fst (prepareCustomMaterialForRender minOpacity cm fl inOpacity io))"
    and "(CompletelyTransparent \<in> prepRenderableFlags (fst (prepareCustomMaterialForRender minOpacity cm fl inOpacity io)))
           = (CompletelyTransparent \<in> fl)"
  using assms by (auto simp: prepareCustomMaterialForRender_def Let_def)

text \<open>
  Claim C2, as the code has it. Let \<open>s\<close> be the effective opacity of the subset (for a
  default material the single-precision product of the incoming opacity and the
  material's, for a custom material the incoming opacity), \<open>minOpacity\<close> the minimum
  render opacity and \<open>u\<close> the single-precision difference \<open>1.f - minOpacity\<close>, with
  \<open>0 \<le> minOpacity \<le> u\<close>. When \<open>s < minOpacity\<close> the opacity becomes 0 and the record
  gets HasTransparency and CompletelyTransparent; when \<open>s > u\<close> the opacity becomes 1 and
  HasTransparency is set only by the flags that came in or by the sources that do not
  depend on the opacity; in every other case, so from \<open>minOpacity\<close> to \<open>u\<close> with both
  bounds included, the opacity is kept and HasTransparency is set.
\<close>

theorem material_opacity_clamp:
  fixes minOpacity inOpacity :: float32
    and m :: QSSGRenderDefaultMaterial and cm :: QSSGRenderCustomMaterial
    and fl :: QSSGRenderableObjectFlags and io :: QSSGLayerRenderPreparationResultFlags
  defines "d \<equiv> fst (prepareDefaultMaterialForRender minOpacity m fl inOpacity io)"
    and "c \<equiv> fst (prepareCustomMaterialForRender minOpacity cm fl inOpacity io)"
    and "s \<equiv> float_mul inOpacity (opacity m)"
    and "u \<equiv> float_sub (Float 1) minOpacity"
  assumes eps: "float_le (Float 0) minOpacity" and upper: "float_le minOpacity u"
  shows "(float_less s minOpacity \<longrightarrow>
            prepOpacity d = Float 0 \<and> HasTransparency \<in> prepRenderableFlags d
            \<and> CompletelyTransparent \<in> prepRenderableFlags d)
       \<and> (float_less u s \<longrightarrow>
            prepOpacity d = Float 1
            \<and> (HasTransparency \<in> prepRenderableFlags d)
                = (HasTransparency \<in> fl \<or> otherTransparencyTriggers m)
            \<and> (CompletelyTransparent \<in> prepRenderableFlags d) = (CompletelyTransparent \<in> fl))
       \<and> (\<not> float_less s minOpacity \<and> \<not> float_less u s \<longrightarrow>
            prepOpacity d = s \<and> HasTransparency \<in> prepRenderableFlags d
            \<and> (CompletelyTransparent \<in> prepRenderableFlags d) = (CompletelyTransparent \<in> fl))
       \<and> (float_less inOpacity minOpacity \<longrightarrow>
            prepOpacity c = Float 0 \<and> HasTransparency \<in> prepRenderableFlags c
            \<and> CompletelyTransparent \<in> prepRenderableFlags c)
       \<and> (float_less u inOpacity \<longrightarrow>
            prepOpacity c = Float 1
            \<and> (HasTransparency \<in> prepRenderableFlags c)
                = (HasTransparency \<in> fl \<or> Blending \<in> m_renderFlags cm)
            \<and> (CompletelyTransparent \<in> prepRenderableFlags c) = (CompletelyTransparent \<in> fl))
       \<and> (\<not> float_less inOpacity minOpacity \<and> \<not> float_less u inOpacity \<longrightarrow>
            prepOpacity c = inOpacity \<and> HasTransparency \<in> prepRenderableFlags c
            \<and> (CompletelyTransparent \<in> prepRenderableFlags c) = (CompletelyTransparent \<in> fl))"
  unfolding d_def c_def s_def
  by (intro conjI impI)
     (simp_all add: default_opacity_low[OF eps upper[unfolded u_def]]
        default_opacity_high[OF upper[unfolded u_def]]
        default_opacity_between custom_opacity_low[OF eps upper[unfolded u_def]]
        custom_opacity_high[OF upper[unfolded u_def]]
        custom_opacity_between u_def)

theorem material_opacity_clamp_witness:
  "float_le (Float 0) exampleMinOpacity
   \<and> float_le exampleMinOpacity (float_sub (Float 1) exampleMinOpacity)
   \<and> float_less (float_mul (Float (1 / 256)) (opacity plainMaterial)) exampleMinOpacity
   \<and> prepOpacity (fst (prepareDefaultMaterialForRender exampleMinOpacity plainMaterial {} (Float (1 / 256)) (initialPreparationFlags False []))) = Float 0
   \<and> HasTransparency \<in> prepRenderableFlags (fst (prepareDefaultMaterialForRender exampleMinOpacity plainMaterial {} (Float (1 / 256)) (initialPreparationFlags False [])))
   \<and> CompletelyTransparent \<in> prepRenderableFlags (fst (prepareDefaultMaterialForRender exampleMinOpacity plainMaterial {} (Float (1 / 256)) (initialPreparationFlags False [])))
   \<and> float_less (float_sub (Float 1) exampleMinOpacity) (float_mul (Float 1) (opacity plainMaterial))
   \<and> prepOpacity (fst (prepareDefaultMaterialForRender exampleMinOpacity plainMaterial {} (Float 1) (initialPreparationFlags False []))) = Float 1
   \<and> HasTransparency \<notin> prepRenderableFlags (fst (prepareDefaultMaterialForRender exampleMinOpacity plainMaterial {} (Float 1) (initialPreparationFlags False [])))
   \<and> \<not> float_less (float_mul (Float (1 / 2)) (opacity plainMaterial)) exampleMinOpacity
   \<and> \<not> float_less (float_sub (Float 1) exampleMinOpacity) (float_mul (Float (1 / 2)) (opacity plainMaterial))
   \<and> prepOpacity (fst (prepareDefaultMaterialForRender exampleMinOpacity plainMaterial {} (Float (1 / 2)) (initialPreparationFlags False []))) = Float (1 / 2)
   \<and> HasTransparency \<in> prepRenderableFlags (fst (prepareDefaultMaterialForRender exampleMinOpacity plainMaterial {} (Float (1 / 2)) (initialPreparationFlags False [])))
   \<and> CompletelyTransparent \<notin> prepRenderableFlags (fst (prepareDefaultMaterialForRender exampleMinOpacity plainMaterial {} (Float (1 / 2)) (initialPreparationFlags False [])))
   \<and> prepOpacity (fst (prepareCustomMaterialForRender exampleMinOpacity \<lparr>m_renderFlags = {}, customDepthBiasSq = 0\<rparr> {} (Float (1 / 256)) (initialPreparationFlags False []))) = Float 0
   \<and> CompletelyTransparent \<in> prepRenderableFlags (fst (prepareCustomMaterialForRender exampleMinOpacity \<lparr>m_renderFlags = {}, customDepthBiasSq = 0\<rparr> {} (Float (1 / 256)) (initialPreparationFlags False [])))
   \<and> prepOpacity (fst (prepareCustomMaterialForRender exampleMinOpacity \<lparr>m_renderFlags = {}, customDepthBiasSq = 0\<rparr> {} (Float 1) (initialPreparationFlags False []))) = Float 1
   \<and> HasTransparency \<notin> prepRenderableFlags (fst (prepareCustomMaterialForRender exampleMinOpacity \<lparr>m_renderFlags = {}, customDepthBiasSq = 0\<rparr> {} (Float 1) (initialPreparationFlags False [])))
   \<and> prepOpacity (fst (prepareCustomMaterialForRender exampleMinOpacity \<lparr>m_renderFlags = {}, customDepthBiasSq = 0\<rparr> {} (Float (1 / 2)) (initialPreparationFlags False []))) = Float (1 / 2)
   \<and> HasTransparency \<in> prepRenderableFlags (fst (prepareCustomMaterialForRender exampleMinOpacity \<lparr>m_renderFlags = {}, customDepthBiasSq = 0\<rparr> {} (Float (1 / 2)) (initialPreparationFlags False [])))"
proof -
  have eps: "float_le (Float 0) exampleMinOpacity"
    by (simp add: exampleMinOpacity_def float_le_def)
  have upper: "float_le exampleMinOpacity (float_sub (Float 1) exampleMinOpacity)"
    unfolding float_sub_example
    by (simp add: exampleMinOpacity_def exampleMaxOpacity_def float_le_def)
  have prod: "float_mul (Float (1 / 256)) (opacity plainMaterial) = Float (1 / 256)"
    "float_mul (Float 1) (opacity plainMaterial) = Float 1"
    "float_mul (Float (1 / 2)) (opacity plainMaterial) = Float (1 / 2)"
    by (simp_all add: plainMaterial_def float_eval)
  have cmp: "float_less (Float (1 / 256)) exampleMinOpacity"
    "float_less exampleMaxOpacity (Float 1)"
    "\<not> float_less (Float (1 / 2)) exampleMinOpacity"
    "\<not> float_less exampleMaxOpacity (Float (1 / 2))"
    by (simp_all add: exampleMinOpacity_def exampleMaxOpacity_def)
  have other: "\<not> otherTransparencyTriggers plainMaterial"
    by (simp add: plainMaterial_def otherTransparencyTriggers_def materialImages_def
          imageAddsTransparency_def)
  note t = material_opacity_clamp [where minOpacity = exampleMinOpacity
          and m = plainMaterial and fl = "{}" and io = "initialPreparationFlags False []"
          and cm = "\<lparr>m_renderFlags = {}, customDepthBiasSq = 0\<rparr>", OF eps upper,
          unfolded float_sub_example prod]
  show ?thesis
    using t [where inOpacity = "Float (1 / 256)"] t [where inOpacity = "Float 1"] t [where inOpacity = "Float (1 / 2)"]
      eps upper cmp other
    by (simp add: prod float_sub_example)
qed

text \<open>
  At the two bounds themselves the code does not do what the claim says. An effective
  opacity equal to the minimum render opacity is kept and the record is not flagged
  CompletelyTransparent; an effective opacity equal to the single-precision value of one
  minus the minimum, which is not below one minus the minimum, is not snapped to 1 and
  flags the record HasTransparency although nothing else asks for it.
\<close>

theorem material_opacity_clamp_counterexample:
  "float_le (float_mul exampleMinOpacity (opacity plainMaterial)) exampleMinOpacity
   \<and> prepOpacity (fst (prepareDefaultMaterialForRender exampleMinOpacity plainMaterial {} (exampleMinOpacity) (initialPreparationFlags False []))) = exampleMinOpacity
   \<and> CompletelyTransparent \<notin> prepRenderableFlags (fst (prepareDefaultMaterialForRender exampleMinOpacity plainMaterial {} (exampleMinOpacity) (initialPreparationFlags False [])))
   \<and> float_le (float_sub (Float 1) exampleMinOpacity) (float_mul exampleMaxOpacity (opacity plainMaterial))
   \<and> 1 - float_val exampleMinOpacity \<le> float_val (float_mul exampleMaxOpacity (opacity plainMaterial))
   \<and> prepOpacity (fst (prepareDefaultMaterialForRender exampleMinOpacity plainMaterial {} (exampleMaxOpacity) (initialPreparationFlags False []))) = exampleMaxOpacity
   \<and> HasTransparency \<in> prepRenderableFlags (fst (prepareDefaultMaterialForRender exampleMinOpacity plainMaterial {} (exampleMaxOpacity) (initialPreparationFlags False [])))
   \<and> \<not> otherTransparencyTriggers plainMaterial
   \<and> prepOpacity (fst (prepareCustomMaterialForRender exampleMinOpacity \<lparr>m_renderFlags = {}, customDepthBiasSq = 0\<rparr> {} (exampleMinOpacity) (initialPreparationFlags False []))) = exampleMinOpacity
   \<and> CompletelyTransparent \<notin> prepRenderableFlags (fst (prepareCustomMaterialForRender exampleMinOpacity \<lparr>m_renderFlags = {}, customDepthBiasSq = 0\<rparr> {} (exampleMinOpacity) (initialPreparationFlags False [])))
   \<and> prepOpacity (fst (prepareCustomMaterialForRender exampleMinOpacity \<lparr>m_renderFlags = {}, customDepthBiasSq = 0\<rparr> {} (exampleMaxOpacity) (initialPreparationFlags False []))) = exampleMaxOpacity
   \<and> HasTransparency \<in> prepRenderableFlags (fst (prepareCustomMaterialForRender exampleMinOpacity \<lparr>m_renderFlags = {}, customDepthBiasSq = 0\<rparr> {} (exampleMaxOpacity) (initialPreparationFlags False [])))"
proof -
  have prod: "float_mul exampleMinOpacity (opacity plainMaterial) = exampleMinOpacity"
    "float_mul exampleMaxOpacity (opacity plainMaterial) = exampleMaxOpacity"
    by (simp_all add: plainMaterial_def exampleMinOpacity_def exampleMaxOpacity_def float_eval)
  have cmp: "\<not> float_less exampleMinOpacity exampleMinOpacity"
    "\<not> float_less exampleMaxOpacity exampleMinOpacity"
    "\<not> float_less exampleMaxOpacity exampleMaxOpacity"
    "float_less exampleMinOpacity exampleMaxOpacity"
    "exampleMinOpacity \<noteq> NaN" "exampleMaxOpacity \<noteq> NaN"
    "1 - float_val exampleMinOpacity \<le> float_val exampleMaxOpacity"
    by (simp_all add: exampleMinOpacity_def exampleMaxOpacity_def)
  have other: "\<not> otherTransparencyTriggers plainMaterial"
    by (simp add: plainMaterial_def otherTransparencyTriggers_def materialImages_def
          imageAddsTransparency_def)
  have imgs: "foldl checkImageAndPrepare {} (materialImages plainMaterial) = {}"
    by (simp add: plainMaterial_def materialImages_def)
  have mat: "\<not> materialDirty plainMaterial" "blendMode plainMaterial = SourceOver"
    "opacityMap plainMaterial = None" "alphaMode plainMaterial \<noteq> Blend"
    "\<not> transmissionEnabled plainMaterial"
    by (simp_all add: plainMaterial_def)
  show ?thesis
    using cmp other
    by (simp add: prepareDefaultMaterialForRender_def prepareCustomMaterialForRender_def
          Let_def prod float_sub_example float_le_def imgs mat)
qed

section \<open>Level of detail\<close>

lemma lodLoop_takeWhile:
  "lodLoop threshold mScale modelBias lodThreshold ds i currentLod =
     (if takeWhile (\<lambda>dist. \<not> float_less lodThreshold
                      (float_div (float_mul (float_mul dist mScale) modelBias) threshold)) ds = []
      then currentLod
      else int (i + length (takeWhile (\<lambda>dist. \<not> float_less lodThreshold
                      (float_div (float_mul (float_mul dist mScale) modelBias) threshold)) ds)) - 1)"
proof (induction ds arbitrary: i currentLod)
  case Nil
  then show ?case by simp
next
  case (Cons dist rest)
  show ?case
  proof (cases "float_less lodThreshold
                  (float_div (float_mul (float_mul dist mScale) modelBias) threshold)")
    case True
    then show ?thesis by simp
  next
    case False
    then show ?thesis using Cons.IH[of "i + 1" "int i"] by (simp add: Let_def)
  qed
qed

lemma selectLevelOfDetail_enabled:
  assumes "lods theSubset \<noteq> []" "float_less (Float 0) lodThreshold" "float_less (Float 0) lodBias"
  shows "selectLevelOfDetail cam lodThreshold mScale lodBias theSubset =
     length (takeWhile
       (\<lambda>dist. \<not> float_less lodThreshold
                  (float_div (float_mul (float_mul dist mScale) (float_div (Float 1) lodBias))
                     (float_mul (lodDistanceThreshold cam theSubset) (levelOfDetailMultiplier cam))))
       (lods theSubset))"
  using assms by (simp add: selectLevelOfDetail_def Let_def lodLoop_takeWhile)

lemma float_div_plus_zero:
  assumes "float_less (Float 0) lodThreshold"
  shows "float_less lodThreshold (float_div x (Float 0))
           = (float_less (Float 0) x \<and> lodThreshold \<noteq> PlusInfinity)"
  using assms
  by (cases x; cases lodThreshold)
     (auto simp: float_div_def float_infinite_def float_zero_def float_infinity_def)

lemma float_div_minus_zero:
  assumes "float_less (Float 0) lodThreshold"
  shows "float_less lodThreshold (float_div x MinusZero)
           = (float_less x (Float 0) \<and> lodThreshold \<noteq> PlusInfinity)"
  using assms
  by (cases x; cases lodThreshold)
     (auto simp: float_div_def float_infinite_def float_zero_def float_infinity_def)

text \<open>
  Claim C3, as the code has it. For a subset with level-of-detail distances, a positive
  pixel-error threshold and a positive bias, the levels are tested in increasing index
  order and a level passes exactly when \<open>levelDistance * modelScale * (1 / bias)\<close>
  divided by \<open>distanceThreshold * cameraLodMultiplier\<close>, every operation in single
  precision, does not exceed the threshold; the test stops at the first level that fails,
  and the selected level is the number of levels passed (level 0, the finest, when the
  first one fails). When the divisor is the positive zero (the camera plane cuts the
  bounds) and the threshold is finite, a level passes exactly when its scaled distance is
  not positive; when the divisor is the negative zero (the bounds lie behind the camera
  plane and touch it), exactly when its scaled distance is not negative, so that positive
  distances all pass and the coarsest level is selected. Without distances, with a
  threshold that is not positive or with a bias that is not positive, level 0 is selected.
\<close>

theorem level_of_detail_selection:
  fixes cam :: QSSGRenderCamera and theSubset :: QSSGRenderSubset
    and lodThreshold mScale lodBias :: float32
  defines "divisor \<equiv> float_mul (lodDistanceThreshold cam theSubset) (levelOfDetailMultiplier cam)"
    and "enabled \<equiv> lods theSubset \<noteq> [] \<and> float_less (Float 0) lodThreshold
                     \<and> float_less (Float 0) lodBias"
  shows "(enabled
     \<longrightarrow> selectLevelOfDetail cam lodThreshold mScale lodBias theSubset =
         length (takeWhile
           (\<lambda>levelDistance. \<not> float_less lodThreshold (float_div (float_mul (float_mul levelDistance mScale) (float_div (Float 1) lodBias)) divisor))
           (lods theSubset)))
   \<and> (enabled \<and> divisor = Float 0 \<and> lodThreshold \<noteq> PlusInfinity
     \<longrightarrow> selectLevelOfDetail cam lodThreshold mScale lodBias theSubset =
         length (takeWhile (\<lambda>levelDistance. \<not> float_less (Float 0) (float_mul (float_mul levelDistance mScale) (float_div (Float 1) lodBias)))
           (lods theSubset)))
   \<and> (enabled \<and> divisor = MinusZero \<and> lodThreshold \<noteq> PlusInfinity
     \<longrightarrow> selectLevelOfDetail cam lodThreshold mScale lodBias theSubset =
         length (takeWhile (\<lambda>levelDistance. \<not> float_less (float_mul (float_mul levelDistance mScale) (float_div (Float 1) lodBias)) (Float 0))
           (lods theSubset)))
   \<and> (\<not> enabled
     \<longrightarrow> selectLevelOfDetail cam lodThreshold mScale lodBias theSubset = 0)"
proof -
  have 1: "enabled
     \<longrightarrow> selectLevelOfDetail cam lodThreshold mScale lodBias theSubset =
         length (takeWhile
           (\<lambda>levelDistance. \<not> float_less lodThreshold (float_div (float_mul (float_mul levelDistance mScale) (float_div (Float 1) lodBias)) divisor))
           (lods theSubset))"
    unfolding enabled_def divisor_def by (intro impI selectLevelOfDetail_enabled) blast+
  have 2: "enabled \<and> divisor = Float 0 \<and> lodThreshold \<noteq> PlusInfinity
     \<longrightarrow> selectLevelOfDetail cam lodThreshold mScale lodBias theSubset =
         length (takeWhile (\<lambda>levelDistance. \<not> float_less (Float 0) (float_mul (float_mul levelDistance mScale) (float_div (Float 1) lodBias)))
           (lods theSubset))"
  proof
    assume a: "enabled \<and> divisor = Float 0 \<and> lodThreshold \<noteq> PlusInfinity"
    then have pos: "float_less (Float 0) lodThreshold" by (simp add: enabled_def)
    show "selectLevelOfDetail cam lodThreshold mScale lodBias theSubset =
         length (takeWhile (\<lambda>levelDistance. \<not> float_less (Float 0) (float_mul (float_mul levelDistance mScale) (float_div (Float 1) lodBias)))
           (lods theSubset))"
      using 1 a by (simp add: float_div_plus_zero[OF pos])
  qed
  have 3: "enabled \<and> divisor = MinusZero \<and> lodThreshold \<noteq> PlusInfinity
     \<longrightarrow> selectLevelOfDetail cam lodThreshold mScale lodBias theSubset =
         length (takeWhile (\<lambda>levelDistance. \<not> float_less (float_mul (float_mul levelDistance mScale) (float_div (Float 1) lodBias)) (Float 0))
           (lods theSubset))"
  proof
    assume a: "enabled \<and> divisor = MinusZero \<and> lodThreshold \<noteq> PlusInfinity"
    then have pos: "float_less (Float 0) lodThreshold" by (simp add: enabled_def)
    show "selectLevelOfDetail cam lodThreshold mScale lodBias theSubset =
         length (takeWhile (\<lambda>levelDistance. \<not> float_less (float_mul (float_mul levelDistance mScale) (float_div (Float 1) lodBias)) (Float 0))
           (lods theSubset))"
      using 1 a by (simp add: float_div_minus_zero[OF pos])
  qed
  have 4: "\<not> enabled
     \<longrightarrow> selectLevelOfDetail cam lodThreshold mScale lodBias theSubset = 0"
    unfolding enabled_def by (auto simp: selectLevelOfDetail_def Let_def)
  from 1 2 3 4 show ?thesis by (intro conjI)
qed

lemma exampleLodSubset_thresholds:
  "lodDistanceThreshold orthographicExampleCamera (exampleLodSubset ds a b) = Float 1"
  "lodDistanceThreshold exampleCamera (exampleLodSubset ds (Float (- 1)) (Float 1)) = Float 0"
  "lodDistanceThreshold exampleCamera (exampleLodSubset ds (Float (- 1)) (Float 0)) = MinusZero"
  by (simp_all add: lodDistanceThreshold_def orthographicExampleCamera_def exampleCamera_def
        exampleLodSubset_def float_eval float_le_def)

lemma example_divisors:
  "float_mul (Float 1) (Float 1) = Float 1"
  "float_mul (Float 0) (Float 1) = Float 0"
  "float_mul MinusZero (Float 1) = MinusZero"
  "float_mul (Float 4) (Float 1) = Float 4"
  "float_div (Float 1) (Float 1) = Float 1"
  "float_div (Float 4) (Float 1) = Float 4"
  by (simp_all add: float_eval float_mul_MinusZero)

theorem level_of_detail_selection_witness:
  "selectLevelOfDetail orthographicExampleCamera (Float 2) (Float 1) (Float 1)
     (exampleLodSubset [Float 1, Float 4] (Float (- 1)) (Float 1)) = 1
   \<and> float_mul (lodDistanceThreshold exampleCamera (exampleLodSubset [Float 1, Float 4] (Float (- 1)) (Float 1)))
        (levelOfDetailMultiplier exampleCamera) = Float 0
   \<and> selectLevelOfDetail exampleCamera (Float 2) (Float 1) (Float 1)
        (exampleLodSubset [Float 1, Float 4] (Float (- 1)) (Float 1)) = 0
   \<and> float_mul (lodDistanceThreshold exampleCamera (exampleLodSubset [Float 1, Float 4] (Float (- 1)) (Float 0)))
        (levelOfDetailMultiplier exampleCamera) = MinusZero
   \<and> selectLevelOfDetail exampleCamera (Float 2) (Float 1) (Float 1)
        (exampleLodSubset [Float 1, Float 4] (Float (- 1)) (Float 0)) = 2
   \<and> selectLevelOfDetail orthographicExampleCamera (Float 2) (Float 1) (Float 0)
        (exampleLodSubset [Float 1, Float 4] (Float (- 1)) (Float 1)) = 0"
proof -
  have l: "lods (exampleLodSubset ds a b) = ds" for ds a b
    by (simp add: exampleLodSubset_def)
  have m: "levelOfDetailMultiplier exampleCamera = Float 1"
    "levelOfDetailMultiplier orthographicExampleCamera = Float 1"
    by (simp_all add: exampleCamera_def orthographicExampleCamera_def)
  note t = level_of_detail_selection [where lodThreshold = "Float 2" and mScale = "Float 1",
             unfolded l m exampleLodSubset_thresholds example_divisors]
  have 1: "selectLevelOfDetail orthographicExampleCamera (Float 2) (Float 1) (Float 1)
     (exampleLodSubset [Float 1, Float 4] (Float (- 1)) (Float 1)) = 1"
    using t [where cam = orthographicExampleCamera and lodBias = "Float 1"
              and theSubset = "exampleLodSubset [Float 1, Float 4] (Float (- 1)) (Float 1)",
             THEN conjunct1]
    by (simp add: l m exampleLodSubset_thresholds example_divisors)
  have 2: "selectLevelOfDetail exampleCamera (Float 2) (Float 1) (Float 1)
        (exampleLodSubset [Float 1, Float 4] (Float (- 1)) (Float 1)) = 0"
    using t [where cam = exampleCamera and lodBias = "Float 1"
              and theSubset = "exampleLodSubset [Float 1, Float 4] (Float (- 1)) (Float 1)",
             THEN conjunct2, THEN conjunct1]
    by (simp add: l m exampleLodSubset_thresholds example_divisors)
  have 3: "selectLevelOfDetail exampleCamera (Float 2) (Float 1) (Float 1)
        (exampleLodSubset [Float 1, Float 4] (Float (- 1)) (Float 0)) = 2"
    using t [where cam = exampleCamera and lodBias = "Float 1"
              and theSubset = "exampleLodSubset [Float 1, Float 4] (Float (- 1)) (Float 0)",
             THEN conjunct2, THEN conjunct2, THEN conjunct1]
    by (simp add: l m exampleLodSubset_thresholds example_divisors)
  have 4: "selectLevelOfDetail orthographicExampleCamera (Float 2) (Float 1) (Float 0)
        (exampleLodSubset [Float 1, Float 4] (Float (- 1)) (Float 1)) = 0"
    using t [where cam = orthographicExampleCamera and lodBias = "Float 0"
              and theSubset = "exampleLodSubset [Float 1, Float 4] (Float (- 1)) (Float 1)",
             THEN conjunct2, THEN conjunct2, THEN conjunct2]
    by (simp add: l m)
  show ?thesis
    using 1 2 3 4 by (simp add: m exampleLodSubset_thresholds example_divisors)
qed

text \<open>
  A level whose ratio stays above the threshold is not accepted, and one whose ratio does
  not is: with one level of ratio 1, the threshold one half selects level 0 (the finest)
  and the threshold 2 selects level 1.
\<close>

theorem level_of_detail_selection_counterexample:
  "float_less (Float (1 / 2))
     (float_div (float_mul (float_mul (Float 1) (Float 1)) (float_div (Float 1) (Float 1)))
        (float_mul (lodDistanceThreshold orthographicExampleCamera (exampleLodSubset [Float 1] (Float 0) (Float 0)))
           (levelOfDetailMultiplier orthographicExampleCamera)))
   \<and> selectLevelOfDetail orthographicExampleCamera (Float (1 / 2)) (Float 1) (Float 1)
        (exampleLodSubset [Float 1] (Float 0) (Float 0)) = 0
   \<and> \<not> float_less (Float 2)
     (float_div (float_mul (float_mul (Float 1) (Float 1)) (float_div (Float 1) (Float 1)))
        (float_mul (lodDistanceThreshold orthographicExampleCamera (exampleLodSubset [Float 1] (Float 0) (Float 0)))
           (levelOfDetailMultiplier orthographicExampleCamera)))
   \<and> selectLevelOfDetail orthographicExampleCamera (Float 2) (Float 1) (Float 1)
        (exampleLodSubset [Float 1] (Float 0) (Float 0)) = 1"
proof -
  have l: "lods (exampleLodSubset ds a b) = ds" for ds a b
    by (simp add: exampleLodSubset_def)
  have m: "levelOfDetailMultiplier orthographicExampleCamera = Float 1"
    by (simp add: orthographicExampleCamera_def)
  show ?thesis
    by (simp add: selectLevelOfDetail_def Let_def l m exampleLodSubset_thresholds
          example_divisors)
qed

section \<open>Classification buckets\<close>

lemma bucketsClassified_bound:
  assumes "bucketsClassified d"
    and "h \<in> set (screenTextureObjects d @ transparentObjects d @ opaqueObjects d)"
  shows "obj h < length (frameObjects d)"
proof -
  from assms(1) have "mset (map obj (screenTextureObjects d @ transparentObjects d @ opaqueObjects d))
        = mset [0..<length (frameObjects d)]"
    by (simp del: mset_upt add: bucketsClassified_def)
  then have "set (map obj (screenTextureObjects d @ transparentObjects d @ opaqueObjects d))
        = set [0..<length (frameObjects d)]"
    by (rule mset_eq_setD)
  moreover from assms(2)
  have "obj h \<in> set (map obj (screenTextureObjects d @ transparentObjects d @ opaqueObjects d))"
    by (simp only: set_map) (rule imageI)
  ultimately show ?thesis by simp
qed

lemma pushRenderableObject_frameObjects:
  "frameObjects (snd (pushRenderableObject cameraData ob d)) = frameObjects d @ [ob]"
  by (simp add: pushRenderableObject_def Let_def)

lemma pushRenderableObject_classified:
  assumes inv: "bucketsClassified d"
  shows "bucketsClassified (snd (pushRenderableObject cameraData ob d))"
proof -
  let ?n = "length (frameObjects d)"
  have old: "\<And>h. h \<in> set (screenTextureObjects d @ transparentObjects d @ opaqueObjects d)
               \<Longrightarrow> (frameObjects d @ [ob]) ! obj h = frameObjects d ! obj h"
    using bucketsClassified_bound[OF inv] by (simp add: nth_append)
  have m: "mset (map obj (screenTextureObjects d @ transparentObjects d @ opaqueObjects d))
        = mset [0..<?n]"
    using inv by (simp del: mset_upt add: bucketsClassified_def)
  have s: "\<forall>h \<in> set (screenTextureObjects d).
            RequiresScreenTexture \<in> renderableFlags (frameObjects d ! obj h)"
    and t: "\<forall>h \<in> set (transparentObjects d).
            RequiresScreenTexture \<notin> renderableFlags (frameObjects d ! obj h)
            \<and> HasTransparency \<in> renderableFlags (frameObjects d ! obj h)"
    and p: "\<forall>h \<in> set (opaqueObjects d).
            RequiresScreenTexture \<notin> renderableFlags (frameObjects d ! obj h)
            \<and> HasTransparency \<notin> renderableFlags (frameObjects d ! obj h)"
    using inv by (simp_all add: bucketsClassified_def)
  show ?thesis
    using m s t p old
    by (auto simp del: mset_upt simp: pushRenderableObject_def Let_def bucketsClassified_def)
qed


lemma pushSubsetRenderable_classified:
  "bucketsClassified d \<Longrightarrow>
     bucketsClassified (fst (pushSubsetRenderable cameraData ob ioFlags d baked))"
  using pushRenderableObject_classified[of d cameraData ob]
  by (simp add: pushSubsetRenderable_def split_beta)

lemma prepareSubset_classified:
  "bucketsClassified (fst st) \<Longrightarrow>
     bucketsClassified (fst (prepareSubset minOpacity cam cameraData lodThreshold model
        flagsForModel modelIdx idx theSubset theMaterialObject st))"
  by (cases st; cases theMaterialObject)
     (simp_all add: prepareSubset_def Let_def split_beta pushSubsetRenderable_classified)

lemma subsetLoop_classified:
  "bucketsClassified (fst st) \<Longrightarrow>
     bucketsClassified (fst (subsetLoop minOpacity cam cameraData lodThreshold model
        flagsForModel modelIdx idx subsets st))"
proof (induction subsets arbitrary: idx st)
  case Nil
  then show ?case by simp
next
  case (Cons theSubset rest)
  show ?case
  proof (cases "materials model = []")
    case True
    then show ?thesis using Cons.prems by simp
  next
    case False
    show ?thesis
    proof (cases "materialForSubset model idx")
      case None
      then show ?thesis using False Cons.IH[OF Cons.prems] by simp
    next
      case (Some theMaterialObject)
      then show ?thesis
        using False Cons.IH[OF prepareSubset_classified[OF Cons.prems]] by simp
    qed
  qed
qed

lemma bucketsClassified_baked:
  "bucketsClassified (d\<lparr>bakedLightingModels := b\<rparr>) = bucketsClassified d"
  by (simp add: bucketsClassified_def)

lemma prepareModel_classified:
  assumes inv: "bucketsClassified (fst st)"
  shows "bucketsClassified (fst (prepareModel minOpacity cam cameraData lodThreshold modelIdx
        renderable st))"
proof (cases "mesh renderable")
  case None
  then show ?thesis using inv by (simp add: prepareModel_def)
next
  case (Some subsets)
  let ?r = "subsetLoop minOpacity cam cameraData lodThreshold (node renderable)
              (renderableFlagsForModel (node renderable) subsets) modelIdx 0 subsets
              (fst st, snd st, [])"
  have "bucketsClassified (fst ?r)"
    using subsetLoop_classified[of "(fst st, snd st, [])"] inv by simp
  then show ?thesis
    using Some by (cases ?r) (simp add: prepareModel_def bucketsClassified_baked)
qed

lemma modelLoop_classified:
  "bucketsClassified (fst st) \<Longrightarrow>
     bucketsClassified (fst (modelLoop minOpacity cam cameraData lodThreshold modelIdx
        renderableModels st))"
  by (induction renderableModels arbitrary: modelIdx st) (simp_all add: prepareModel_classified)

lemma prepareParticles_classified:
  "bucketsClassified d \<Longrightarrow> bucketsClassified (prepareParticles cameraData particlesIdx particles d)"
  by (simp add: prepareParticles_def Let_def pushRenderableObject_classified)

lemma particlesLoop_classified:
  "bucketsClassified d \<Longrightarrow>
     bucketsClassified (particlesLoop cameraData particlesIdx renderableParticles d)"
  by (induction renderableParticles arbitrary: particlesIdx d)
     (simp_all add: prepareParticles_classified)

lemma preparers_classified:
  "bucketsClassified d \<Longrightarrow>
     bucketsClassified
       (prepareParticlesForRender supportRgba32f supportRgba16f cameraData renderableParticles
          (fst (prepareModelForRender minOpacity cam cameraData lodThreshold renderableModels
                  (d, ioFlags))))"
  using modelLoop_classified[of "(d, ioFlags)"]
  by (simp add: prepareParticlesForRender_def prepareModelForRender_def particlesLoop_classified)

lemma bucketsClassified_start:
  "frameObjects d = [] \<Longrightarrow> opaqueObjects d = [] \<Longrightarrow> transparentObjects d = []
     \<Longrightarrow> screenTextureObjects d = [] \<Longrightarrow> bucketsClassified d"
  by (simp add: bucketsClassified_def)

lemma bucketsClassified_distinct:
  assumes "bucketsClassified d"
  shows "distinct (map obj (screenTextureObjects d @ transparentObjects d @ opaqueObjects d))"
proof -
  from assms have "mset (map obj (screenTextureObjects d @ transparentObjects d @ opaqueObjects d))
        = mset [0..<length (frameObjects d)]"
    by (simp del: mset_upt add: bucketsClassified_def)
  then show ?thesis
    using mset_eq_imp_distinct_iff distinct_upt by blast
qed


section \<open>Records created for the subsets of a model\<close>

lemma pushSubsetRenderable_frameObjects:
  "frameObjects (fst (pushSubsetRenderable cameraData ob ioFlags d baked)) = frameObjects d @ [ob]"
  using pushRenderableObject_frameObjects[of cameraData ob d]
  by (simp add: pushSubsetRenderable_def split_beta)

lemma prepareSubset_frameObjects:
  "\<exists>new. frameObjects (fst (prepareSubset minOpacity cam cameraData lodThreshold model
              flagsForModel modelIdx idx theSubset theMaterialObject st))
            = frameObjects (fst st) @ new
         \<and> map sourceSubset new = (if theMaterialObject = OtherGraphObject then [] else [idx])"
  by (cases st; cases theMaterialObject)
     (simp_all add: prepareSubset_def Let_def split_beta pushSubsetRenderable_frameObjects)

lemma subsetLoop_frameObjects:
  assumes "materials model \<noteq> []"
  shows "\<exists>new. frameObjects (fst (subsetLoop minOpacity cam cameraData lodThreshold model
              flagsForModel modelIdx idx subsets st))
            = frameObjects (fst st) @ new
         \<and> map sourceSubset new
            = filter (\<lambda>i. materialForSubset model i \<noteq> None
                          \<and> materialForSubset model i \<noteq> Some OtherGraphObject)
                [idx..<idx + length subsets]"
proof (induction subsets arbitrary: idx st)
  case Nil
  then show ?case by simp
next
  case (Cons theSubset rest)
  have upt: "[idx..<idx + length (theSubset # rest)] = idx # [idx + 1..<idx + 1 + length rest]"
  proof -
    have "idx < idx + length (theSubset # rest)" by simp
    then have "[idx..<idx + length (theSubset # rest)]
                 = idx # [Suc idx..<idx + length (theSubset # rest)]"
      by (rule upt_conv_Cons)
    moreover have "idx + length (theSubset # rest) = idx + 1 + length rest" by simp
    ultimately show ?thesis by (simp only: Suc_eq_plus1)
  qed
  show ?case
  proof (cases "materialForSubset model idx")
    case None
    from Cons.IH[of "idx + 1" st] obtain new where
      "frameObjects (fst (subsetLoop minOpacity cam cameraData lodThreshold model
              flagsForModel modelIdx (idx + 1) rest st)) = frameObjects (fst st) @ new"
      "map sourceSubset new
            = filter (\<lambda>i. materialForSubset model i \<noteq> None
                          \<and> materialForSubset model i \<noteq> Some OtherGraphObject)
                [idx + 1..<idx + 1 + length rest]"
      by blast
    then show ?thesis using None assms by (simp only: upt) simp
  next
    case (Some theMaterialObject)
    let ?st1 = "prepareSubset minOpacity cam cameraData lodThreshold model flagsForModel
                  modelIdx idx theSubset theMaterialObject st"
    from prepareSubset_frameObjects[of minOpacity cam cameraData lodThreshold model
          flagsForModel modelIdx idx theSubset theMaterialObject st]
    obtain new1 where n1: "frameObjects (fst ?st1) = frameObjects (fst st) @ new1"
      "map sourceSubset new1 = (if theMaterialObject = OtherGraphObject then [] else [idx])"
      by blast
    from Cons.IH[of "idx + 1" ?st1] obtain new2 where n2:
      "frameObjects (fst (subsetLoop minOpacity cam cameraData lodThreshold model
              flagsForModel modelIdx (idx + 1) rest ?st1)) = frameObjects (fst ?st1) @ new2"
      "map sourceSubset new2
            = filter (\<lambda>i. materialForSubset model i \<noteq> None
                          \<and> materialForSubset model i \<noteq> Some OtherGraphObject)
                [idx + 1..<idx + 1 + length rest]"
      by blast
    have "frameObjects (fst (subsetLoop minOpacity cam cameraData lodThreshold model
              flagsForModel modelIdx idx (theSubset # rest) st))
            = frameObjects (fst st) @ (new1 @ new2)"
      using Some assms n1(1) n2(1) by simp
    moreover have "map sourceSubset (new1 @ new2)
            = filter (\<lambda>i. materialForSubset model i \<noteq> None
                          \<and> materialForSubset model i \<noteq> Some OtherGraphObject)
                [idx..<idx + length (theSubset # rest)]"
      using Some n1(2) n2(2) by (simp only: upt) simp
    ultimately show ?thesis by blast
  qed
qed

lemma subsetLoop_no_materials:
  "materials model = [] \<Longrightarrow>
     subsetLoop minOpacity cam cameraData lodThreshold model flagsForModel modelIdx idx subsets st
       = st"
  by (cases subsets) simp_all

lemma prepareModel_frameObjects:
  "frameObjects (fst (prepareModel minOpacity cam cameraData lodThreshold modelIdx renderable st))
     = (case mesh renderable of
          None \<Rightarrow> frameObjects (fst st)
        | Some subsets \<Rightarrow>
            frameObjects (fst (subsetLoop minOpacity cam cameraData lodThreshold (node renderable)
              (renderableFlagsForModel (node renderable) subsets) modelIdx 0 subsets
              (fst st, snd st, []))))"
  by (cases "mesh renderable") (simp_all add: prepareModel_def split_beta)

text \<open>
  Claim C10. A model whose material list is empty leaves the preparation state as it was:
  no record is created for it and no bucket changes, whether or not its mesh was resolved.
  For a model with materials and a resolved mesh, the records created are, in order, those
  of the subsets whose material (the one at the subset's index, or the last one past the
  end of the list) is neither null nor of a type the preparer does not know: a null
  material skips that subset only.
\<close>

theorem empty_and_null_materials:
  "(materials (node renderable) = [] \<longrightarrow>
      prepareModel minOpacity cam cameraData lodThreshold modelIdx renderable st = st)
   \<and> (mesh renderable = Some subsets \<and> materials (node renderable) \<noteq> [] \<longrightarrow>
        take (length (frameObjects (fst st)))
          (frameObjects (fst (prepareModel minOpacity cam cameraData lodThreshold modelIdx
             renderable st)))
          = frameObjects (fst st)
        \<and> map sourceSubset
            (drop (length (frameObjects (fst st)))
               (frameObjects (fst (prepareModel minOpacity cam cameraData lodThreshold modelIdx
                  renderable st))))
          = filter (\<lambda>idx. materialForSubset (node renderable) idx \<noteq> None
                          \<and> materialForSubset (node renderable) idx \<noteq> Some OtherGraphObject)
              [0..<length subsets])"
proof -
  have empty: "materials (node renderable) = [] \<longrightarrow>
      prepareModel minOpacity cam cameraData lodThreshold modelIdx renderable st = st"
    by (cases "mesh renderable") (simp_all add: prepareModel_def subsetLoop_no_materials)
  have nonempty: "mesh renderable = Some subsets \<and> materials (node renderable) \<noteq> [] \<longrightarrow>
        take (length (frameObjects (fst st)))
          (frameObjects (fst (prepareModel minOpacity cam cameraData lodThreshold modelIdx
             renderable st)))
          = frameObjects (fst st)
        \<and> map sourceSubset
            (drop (length (frameObjects (fst st)))
               (frameObjects (fst (prepareModel minOpacity cam cameraData lodThreshold modelIdx
                  renderable st))))
          = filter (\<lambda>idx. materialForSubset (node renderable) idx \<noteq> None
                          \<and> materialForSubset (node renderable) idx \<noteq> Some OtherGraphObject)
              [0..<length subsets]"
  proof
    assume a: "mesh renderable = Some subsets \<and> materials (node renderable) \<noteq> []"
    from subsetLoop_frameObjects[of "node renderable" minOpacity cam cameraData lodThreshold
           "renderableFlagsForModel (node renderable) subsets" modelIdx 0 subsets
           "(fst st, snd st, [])"] a
    obtain new where new:
      "frameObjects (fst (subsetLoop minOpacity cam cameraData lodThreshold (node renderable)
                (renderableFlagsForModel (node renderable) subsets) modelIdx 0 subsets
                (fst st, snd st, []))) = frameObjects (fst st) @ new"
      "map sourceSubset new
         = filter (\<lambda>idx. materialForSubset (node renderable) idx \<noteq> None
                            \<and> materialForSubset (node renderable) idx \<noteq> Some OtherGraphObject)
             [0..<length subsets]"
      by auto
    have fo: "frameObjects (fst (prepareModel minOpacity cam cameraData lodThreshold modelIdx
               renderable st)) = frameObjects (fst st) @ new"
      using a new(1) by (simp add: prepareModel_frameObjects)
    show "take (length (frameObjects (fst st)))
            (frameObjects (fst (prepareModel minOpacity cam cameraData lodThreshold modelIdx
               renderable st)))
            = frameObjects (fst st)
          \<and> map sourceSubset
              (drop (length (frameObjects (fst st)))
                 (frameObjects (fst (prepareModel minOpacity cam cameraData lodThreshold modelIdx
                    renderable st))))
            = filter (\<lambda>idx. materialForSubset (node renderable) idx \<noteq> None
                            \<and> materialForSubset (node renderable) idx \<noteq> Some OtherGraphObject)
                [0..<length subsets]"
      using new(2) by (simp add: fo)
  qed
  from empty nonempty show ?thesis by (rule conjI)
qed


theorem empty_and_null_materials_witness:
  "materials (node (\<lparr>node = exampleModel [], mesh = Some [exampleSubset]\<rparr>)) = []
   \<and> prepareModel exampleMinOpacity exampleCamera exampleCameraData (Float 1) 0 (\<lparr>node = exampleModel [], mesh = Some [exampleSubset]\<rparr>) (emptyLayerData, initialPreparationFlags False []) = (emptyLayerData, initialPreparationFlags False [])
   \<and> mesh (\<lparr>node = exampleModel [None, Some (DefaultMaterialObject plainMaterial)], mesh = Some [exampleSubset, exampleSubset, exampleSubset]\<rparr>) = Some [exampleSubset, exampleSubset, exampleSubset]
   \<and> materials (node (\<lparr>node = exampleModel [None, Some (DefaultMaterialObject plainMaterial)], mesh = Some [exampleSubset, exampleSubset, exampleSubset]\<rparr>)) \<noteq> []
   \<and> map sourceSubset (frameObjects (fst (prepareModel exampleMinOpacity exampleCamera exampleCameraData (Float 1) 0 (\<lparr>node = exampleModel [None, Some (DefaultMaterialObject plainMaterial)], mesh = Some [exampleSubset, exampleSubset, exampleSubset]\<rparr>) (emptyLayerData, initialPreparationFlags False [])))) = [1, 2]"
  using empty_and_null_materials [of "\<lparr>node = exampleModel [], mesh = Some [exampleSubset]\<rparr>" exampleMinOpacity exampleCamera exampleCameraData "Float 1" 0
          "(emptyLayerData, initialPreparationFlags False [])" "[exampleSubset]"]
    empty_and_null_materials [of "\<lparr>node = exampleModel [None, Some (DefaultMaterialObject plainMaterial)], mesh = Some [exampleSubset, exampleSubset, exampleSubset]\<rparr>" exampleMinOpacity exampleCamera exampleCameraData "Float 1" 0
          "(emptyLayerData, initialPreparationFlags False [])"
          "[exampleSubset, exampleSubset, exampleSubset]"]
  by (simp add: exampleModel_def emptyLayerData_def materialForSubset_def)


section \<open>The buckets after the two preparers\<close>

text \<open>
  Claim C1. From the start of a frame (no record in the store, the three buckets empty),
  after the model preparer and the particle preparer: the pointers in the three buckets
  are, with multiplicity, exactly the pointers of the records created, so no record is
  lost and none is held twice; the buckets are pairwise disjoint; and a record is in the
  screen-texture bucket when it requires the screen texture, else in the transparent
  bucket when it has transparency, else in the opaque bucket.
\<close>

theorem classification_buckets:
  fixes d :: QSSGLayerRenderData
    and renderableModels :: "QSSGRenderableNodeEntry list"
    and renderableParticles :: "QSSGRenderParticles list"
    and minOpacity lodThreshold :: float32
    and cam :: QSSGRenderCamera and cameraData :: QSSGCameraData
    and supportRgba32f supportRgba16f :: bool
    and ioFlags :: QSSGLayerRenderPreparationResultFlags
  defines "d' \<equiv>
     prepareParticlesForRender supportRgba32f supportRgba16f cameraData renderableParticles
       (fst (prepareModelForRender minOpacity cam cameraData lodThreshold renderableModels
               (d, ioFlags)))"
  assumes start: "frameObjects d = []" "opaqueObjects d = []" "transparentObjects d = []"
    "screenTextureObjects d = []"
  shows "mset (map obj (screenTextureObjects d' @ transparentObjects d' @ opaqueObjects d'))
           = mset [0..<length (frameObjects d')]
       \<and> distinct (map obj (screenTextureObjects d' @ transparentObjects d' @ opaqueObjects d'))
       \<and> set (map obj (screenTextureObjects d')) \<inter> set (map obj (transparentObjects d')) = {}
       \<and> set (map obj (screenTextureObjects d')) \<inter> set (map obj (opaqueObjects d')) = {}
       \<and> set (map obj (transparentObjects d')) \<inter> set (map obj (opaqueObjects d')) = {}
       \<and> (\<forall>h \<in> set (screenTextureObjects d').
             RequiresScreenTexture \<in> renderableFlags (frameObjects d' ! obj h))
       \<and> (\<forall>h \<in> set (transparentObjects d').
             RequiresScreenTexture \<notin> renderableFlags (frameObjects d' ! obj h)
             \<and> HasTransparency \<in> renderableFlags (frameObjects d' ! obj h))
       \<and> (\<forall>h \<in> set (opaqueObjects d').
             RequiresScreenTexture \<notin> renderableFlags (frameObjects d' ! obj h)
             \<and> HasTransparency \<notin> renderableFlags (frameObjects d' ! obj h))"
proof -
  have "bucketsClassified d" using start by (rule bucketsClassified_start)
  then have inv: "bucketsClassified d'"
    unfolding d'_def by (rule preparers_classified)
  have dist: "distinct (map obj (screenTextureObjects d' @ transparentObjects d' @ opaqueObjects d'))"
    using inv by (rule bucketsClassified_distinct)
  have 1: "mset (map obj (screenTextureObjects d' @ transparentObjects d' @ opaqueObjects d'))
           = mset [0..<length (frameObjects d')]"
    using inv by (simp del: mset_upt add: bucketsClassified_def)
  have 2: "set (map obj (screenTextureObjects d')) \<inter> set (map obj (transparentObjects d')) = {}"
    and 3: "set (map obj (screenTextureObjects d')) \<inter> set (map obj (opaqueObjects d')) = {}"
    and 4: "set (map obj (transparentObjects d')) \<inter> set (map obj (opaqueObjects d')) = {}"
    using dist by auto
  have 5: "\<forall>h \<in> set (screenTextureObjects d').
             RequiresScreenTexture \<in> renderableFlags (frameObjects d' ! obj h)"
    and 6: "\<forall>h \<in> set (transparentObjects d').
             RequiresScreenTexture \<notin> renderableFlags (frameObjects d' ! obj h)
             \<and> HasTransparency \<in> renderableFlags (frameObjects d' ! obj h)"
    and 7: "\<forall>h \<in> set (opaqueObjects d').
             RequiresScreenTexture \<notin> renderableFlags (frameObjects d' ! obj h)
             \<and> HasTransparency \<notin> renderableFlags (frameObjects d' ! obj h)"
    using inv by (simp_all add: bucketsClassified_def)
  show ?thesis
    by (intro conjI) (fact 1 dist 2 3 4 5 6 7)+
qed

lemma exampleFrame_buckets:
  "map obj (opaqueObjects exampleFrame) = [0]
   \<and> map obj (transparentObjects exampleFrame) = [1, 3]
   \<and> map obj (screenTextureObjects exampleFrame) = [2]
   \<and> length (frameObjects exampleFrame) = 4"
  by (simp add: exampleFrame_def exampleModels_def exampleParticles_def exampleModel_def
        exampleSubset_def exampleCamera_def exampleCameraData_def emptyLayerData_def
        plainMaterial_def initialPreparationFlags_def
        prepareParticlesForRender_def prepareModelForRender_def prepareModel_def
        prepareParticles_def prepareSubset_def pushSubsetRenderable_def
        pushRenderableObject_def materialForSubset_def renderableFlagsForModel_def
        prepareDefaultMaterialForRender_def materialImages_def selectLevelOfDetail_def
        getCameraDistanceSq_def setFlag_def float_sub_example example_products
        example_opacity_tests Let_def)


theorem classification_buckets_witness:
  "frameObjects emptyLayerData = [] \<and> opaqueObjects emptyLayerData = []
   \<and> transparentObjects emptyLayerData = [] \<and> screenTextureObjects emptyLayerData = []
   \<and> map obj (opaqueObjects exampleFrame) = [0]
   \<and> map obj (transparentObjects exampleFrame) = [1, 3]
   \<and> map obj (screenTextureObjects exampleFrame) = [2]
   \<and> length (frameObjects exampleFrame) = 4
   \<and> mset (map obj (screenTextureObjects exampleFrame @ transparentObjects exampleFrame
                      @ opaqueObjects exampleFrame))
       = mset [0..<length (frameObjects exampleFrame)]
   \<and> distinct (map obj (screenTextureObjects exampleFrame @ transparentObjects exampleFrame
                      @ opaqueObjects exampleFrame))"
proof -
  have start: "frameObjects emptyLayerData = []" "opaqueObjects emptyLayerData = []"
    "transparentObjects emptyLayerData = []" "screenTextureObjects emptyLayerData = []"
    by (simp_all add: emptyLayerData_def)
  note t = classification_buckets [where d = emptyLayerData and supportRgba32f = True
          and supportRgba16f = True and cameraData = exampleCameraData
          and renderableParticles = exampleParticles and minOpacity = exampleMinOpacity
          and cam = exampleCamera and lodThreshold = "Float 1" and renderableModels = exampleModels
          and ioFlags = "initialPreparationFlags False []", OF start, folded exampleFrame_def]
  have m: "mset (map obj (screenTextureObjects exampleFrame @ transparentObjects exampleFrame
                      @ opaqueObjects exampleFrame))
       = mset [0..<length (frameObjects exampleFrame)]"
    using t[THEN conjunct1] .
  have dd: "distinct (map obj (screenTextureObjects exampleFrame @ transparentObjects exampleFrame
                      @ opaqueObjects exampleFrame))"
    using t[THEN conjunct2, THEN conjunct1] .
  have b: "map obj (opaqueObjects exampleFrame) = [0]"
    "map obj (transparentObjects exampleFrame) = [1, 3]"
    "map obj (screenTextureObjects exampleFrame) = [2]"
    "length (frameObjects exampleFrame) = 4"
    using exampleFrame_buckets by blast+
  show ?thesis
    by (intro conjI) (fact start m dd b)+
qed

section \<open>2D items\<close>































section \<open>Reflection probes\<close>

lemma injectProbe_alt:
  "injectProbe probeIntersects probeDistance i (objs, c) h =
     (if probeTriggers probeIntersects probeDistance i (obj h) (objs ! obj h)
      then (objs[obj h := probeAssign probeDistance i (obj h) (objs ! obj h)], c + 1)
      else (objs, c))"
  by (auto simp: injectProbe_def probeTriggers_def probeAssign_def receivesProbes_def Let_def)

lemma probeTriggers_assigned:
  "\<not> probeTriggers probeIntersects probeDistance i p (probeAssign probeDistance i p ob)"
  by (simp add: probeTriggers_def probeAssign_def)

lemma receivesProbes_assigned:
  "receivesProbes (probeAssign probeDistance i p ob) = receivesProbes ob"
  by (simp add: receivesProbes_def probeAssign_def)

lemma inject_fold:
  assumes "\<forall>h \<in> set hs. obj h < length objs"
    and "foldl (injectProbe probeIntersects probeDistance i) (objs, c) hs = (objs', c')"
  shows "length objs' = length objs
       \<and> (\<forall>p < length objs. objs' ! p =
            (if p \<in> obj ` set hs \<and> probeTriggers probeIntersects probeDistance i p (objs ! p)
             then probeAssign probeDistance i p (objs ! p) else objs ! p))
       \<and> c \<le> c'
       \<and> (c < c') = (\<exists>h \<in> set hs. probeTriggers probeIntersects probeDistance i (obj h) (objs ! obj h))"
  using assms
proof (induction hs arbitrary: objs c)
  case Nil
  then show ?case by simp
next
  case (Cons h hs)
  let ?T = "probeTriggers probeIntersects probeDistance i"
  let ?A = "probeAssign probeDistance i"
  have hb: "obj h < length objs" using Cons.prems(1) by simp
  show ?case
  proof (cases "?T (obj h) (objs ! obj h)")
    case False
    then have step: "injectProbe probeIntersects probeDistance i (objs, c) h = (objs, c)"
      by (simp add: injectProbe_alt)
    from Cons.prems(2) have run: "foldl (injectProbe probeIntersects probeDistance i) (objs, c) hs = (objs', c')"
      by (simp add: step)
    have v: "\<forall>h \<in> set hs. obj h < length objs" using Cons.prems(1) by simp
    note ih = Cons.IH[OF v run]
    show ?thesis using ih False by auto
  next
    case True
    let ?objs1 = "objs[obj h := ?A (obj h) (objs ! obj h)]"
    have step: "injectProbe probeIntersects probeDistance i (objs, c) h = (?objs1, c + 1)"
      using True by (simp add: injectProbe_alt)
    from Cons.prems(2) have run: "foldl (injectProbe probeIntersects probeDistance i) (?objs1, c + 1) hs = (objs', c')"
      by (simp add: step)
    have v: "\<forall>h \<in> set hs. obj h < length ?objs1" using Cons.prems(1) by simp
    note ih = Cons.IH[OF v run]
    have len: "length objs' = length objs" using ih by simp
    have c: "c \<le> c'" "c < c'" using ih by simp_all
    have nth: "\<forall>p < length objs. objs' ! p =
            (if p \<in> obj ` set (h # hs) \<and> ?T p (objs ! p) then ?A p (objs ! p) else objs ! p)"
    proof (intro allI impI)
      fix p assume p: "p < length objs"
      from ih p have e: "objs' ! p =
            (if p \<in> obj ` set hs \<and> ?T p (?objs1 ! p) then ?A p (?objs1 ! p) else ?objs1 ! p)"
        by simp
      show "objs' ! p =
            (if p \<in> obj ` set (h # hs) \<and> ?T p (objs ! p) then ?A p (objs ! p) else objs ! p)"
      proof (cases "p = obj h")
        case True
        then have "?objs1 ! p = ?A p (objs ! p)" using hb by simp
        then show ?thesis using e True \<open>?T (obj h) (objs ! obj h)\<close>
          by (simp add: probeTriggers_assigned)
      next
        case False
        then have "?objs1 ! p = objs ! p" by simp
        then show ?thesis using e False by auto
      qed
    qed
    show ?thesis using len c nth True by auto
  qed
qed


lemma triggers_iff_nearer:
  assumes "nearestProbeOf probeIntersects probeDistance k p ob" and "receivesProbes ob"
  shows "probeTriggers probeIntersects probeDistance k p ob
           = nearerThanEarlierProbes probeIntersects probeDistance k p"
proof (cases "reflectionProbeIndex ob = - 1")
  case True
  with assms(1) have none: "\<forall>j<k. \<not> probeIntersects j p"
    by (auto simp: nearestProbeOf_def)
  show ?thesis using True none assms(2)
    by (auto simp: probeTriggers_def nearerThanEarlierProbes_def)
next
  case False
  with assms(1) obtain m where m: "m < k" "reflectionProbeIndex ob = int m"
      "distanceFromReflectionProbe ob = probeDistance m p" "probeIntersects m p"
      "\<forall>j<k. probeIntersects j p \<longrightarrow> probeDistance m p \<le> probeDistance j p"
    by (auto simp: nearestProbeOf_def)
  show ?thesis
  proof
    assume "probeTriggers probeIntersects probeDistance k p ob"
    then have i: "probeIntersects k p" and lt: "probeDistance k p < probeDistance m p"
      using False m(3) by (auto simp: probeTriggers_def)
    have "\<forall>j<k. probeIntersects j p \<longrightarrow> probeDistance k p < probeDistance j p"
    proof (intro allI impI)
      fix j assume "j < k" "probeIntersects j p"
      with m(5) have "probeDistance m p \<le> probeDistance j p" by blast
      with lt show "probeDistance k p < probeDistance j p" by linarith
    qed
    with i show "nearerThanEarlierProbes probeIntersects probeDistance k p"
      by (simp add: nearerThanEarlierProbes_def)
  next
    assume "nearerThanEarlierProbes probeIntersects probeDistance k p"
    then have i: "probeIntersects k p"
      and a: "\<forall>j<k. probeIntersects j p \<longrightarrow> probeDistance k p < probeDistance j p"
      by (simp_all add: nearerThanEarlierProbes_def)
    from a m(1) m(4) have "probeDistance k p < probeDistance m p" by blast
    then show "probeTriggers probeIntersects probeDistance k p ob"
      using i assms(2) m(3) by (simp add: probeTriggers_def)
  qed
qed

lemma nearest_after_assign:
  assumes "nearerThanEarlierProbes probeIntersects probeDistance k p"
  shows "nearestProbeOf probeIntersects probeDistance (Suc k) p (probeAssign probeDistance k p ob)"
proof -
  from assms have i: "probeIntersects k p"
    and a: "\<forall>j<k. probeIntersects j p \<longrightarrow> probeDistance k p < probeDistance j p"
    by (simp_all add: nearerThanEarlierProbes_def)
  have le: "\<forall>j<Suc k. probeIntersects j p \<longrightarrow> probeDistance k p \<le> probeDistance j p"
  proof (intro allI impI)
    fix j assume j: "j < Suc k" "probeIntersects j p"
    show "probeDistance k p \<le> probeDistance j p"
    proof (cases "j = k")
      case True then show ?thesis by simp
    next
      case False
      with j have "j < k" by simp
      with a j(2) show ?thesis by (simp add: less_imp_le)
    qed
  qed
  have "k < Suc k \<and> reflectionProbeIndex (probeAssign probeDistance k p ob) = int k
      \<and> distanceFromReflectionProbe (probeAssign probeDistance k p ob) = probeDistance k p
      \<and> probeIntersects k p
      \<and> (\<forall>j<Suc k. probeIntersects j p \<longrightarrow> probeDistance k p \<le> probeDistance j p)
      \<and> (\<forall>j<k. probeIntersects j p \<longrightarrow> probeDistance k p < probeDistance j p)"
    using i a le by (simp add: probeAssign_def)
  then show ?thesis unfolding nearestProbeOf_def by blast
qed

lemma nearest_kept:
  assumes inv: "nearestProbeOf probeIntersects probeDistance k p ob"
    and rec: "receivesProbes ob"
    and no: "\<not> nearerThanEarlierProbes probeIntersects probeDistance k p"
  shows "nearestProbeOf probeIntersects probeDistance (Suc k) p ob"
proof (cases "probeIntersects k p")
  case False
  from inv show ?thesis
    unfolding nearestProbeOf_def
  proof (elim disjE conjE exE)
    assume a: "reflectionProbeIndex ob = - 1" "\<forall>j<k. \<not> probeIntersects j p"
    have "\<forall>j<Suc k. \<not> probeIntersects j p" using a(2) False by (simp add: less_Suc_eq)
    with a(1) show "(reflectionProbeIndex ob = - 1 \<and> (\<forall>j<Suc k. \<not> probeIntersects j p))
      \<or> (\<exists>m<Suc k. reflectionProbeIndex ob = int m
                 \<and> distanceFromReflectionProbe ob = probeDistance m p
                 \<and> probeIntersects m p
                 \<and> (\<forall>j<Suc k. probeIntersects j p \<longrightarrow> probeDistance m p \<le> probeDistance j p)
                 \<and> (\<forall>j<m. probeIntersects j p \<longrightarrow> probeDistance m p < probeDistance j p))"
      by blast
  next
    fix m assume m: "m < k" "reflectionProbeIndex ob = int m"
      "distanceFromReflectionProbe ob = probeDistance m p" "probeIntersects m p"
      "\<forall>j<k. probeIntersects j p \<longrightarrow> probeDistance m p \<le> probeDistance j p"
      "\<forall>j<m. probeIntersects j p \<longrightarrow> probeDistance m p < probeDistance j p"
    have "\<forall>j<Suc k. probeIntersects j p \<longrightarrow> probeDistance m p \<le> probeDistance j p"
      using m(5) False by (simp add: less_Suc_eq)
    moreover have "m < Suc k" using m(1) by simp
    ultimately show "(reflectionProbeIndex ob = - 1 \<and> (\<forall>j<Suc k. \<not> probeIntersects j p))
      \<or> (\<exists>m<Suc k. reflectionProbeIndex ob = int m
                 \<and> distanceFromReflectionProbe ob = probeDistance m p
                 \<and> probeIntersects m p
                 \<and> (\<forall>j<Suc k. probeIntersects j p \<longrightarrow> probeDistance m p \<le> probeDistance j p)
                 \<and> (\<forall>j<m. probeIntersects j p \<longrightarrow> probeDistance m p < probeDistance j p))"
      using m(2,3,4,6) by blast
  qed
next
  case True
  from no rec inv have nt: "\<not> probeTriggers probeIntersects probeDistance k p ob"
    by (simp add: triggers_iff_nearer)
  with True rec have idx: "reflectionProbeIndex ob \<noteq> - 1"
    and ge: "\<not> probeDistance k p < distanceFromReflectionProbe ob"
    by (auto simp: probeTriggers_def)
  from inv idx obtain m where m: "m < k" "reflectionProbeIndex ob = int m"
      "distanceFromReflectionProbe ob = probeDistance m p" "probeIntersects m p"
      "\<forall>j<k. probeIntersects j p \<longrightarrow> probeDistance m p \<le> probeDistance j p"
      "\<forall>j<m. probeIntersects j p \<longrightarrow> probeDistance m p < probeDistance j p"
    by (auto simp: nearestProbeOf_def)
  have "probeDistance m p \<le> probeDistance k p" using ge m(3) by simp
  then have "\<forall>j<Suc k. probeIntersects j p \<longrightarrow> probeDistance m p \<le> probeDistance j p"
    using m(5) by (simp add: less_Suc_eq)
  moreover have "m < Suc k" using m(1) by simp
  ultimately show ?thesis
    unfolding nearestProbeOf_def using m(2,3,4,6) by blast
qed


lemma probeIteration_step:
  fixes d :: QSSGLayerRenderData
    and probeIntersects :: "nat \<Rightarrow> nat \<Rightarrow> bool" and probeDistance :: "nat \<Rightarrow> nat \<Rightarrow> real"
    and i :: nat and probe :: QSSGRenderReflectionProbe
  defines "hs \<equiv> transparentObjects d @ opaqueObjects d"
  defines "d1 \<equiv> probeIteration probeIntersects probeDistance i probe d"
  assumes valid: "\<forall>h \<in> set hs. obj h < length (frameObjects d)"
    and inv: "\<forall>h \<in> set hs. receivesProbes (frameObjects d ! obj h)
                \<longrightarrow> nearestProbeOf probeIntersects probeDistance i (obj h) (frameObjects d ! obj h)"
  shows "transparentObjects d1 = transparentObjects d"
    and "opaqueObjects d1 = opaqueObjects d"
    and "length (frameObjects d1) = length (frameObjects d)"
    and "\<forall>p < length (frameObjects d).
            receivesProbes (frameObjects d1 ! p) = receivesProbes (frameObjects d ! p)"
    and "\<forall>h \<in> set hs. receivesProbes (frameObjects d ! obj h)
            \<longrightarrow> nearestProbeOf probeIntersects probeDistance (Suc i) (obj h)
                  (frameObjects d1 ! obj h)"
    and "reflectionMapEntries d1 = reflectionMapEntries d @
           (if probeHasTexture probe then [TexturedReflectionMapEntry i]
            else if (\<exists>h \<in> set hs. receivesProbes (frameObjects d ! obj h)
                        \<and> nearerThanEarlierProbes probeIntersects probeDistance i (obj h))
            then [LiveReflectionMapEntry i] else [])"
proof -
  let ?T = "probeTriggers probeIntersects probeDistance i"
  let ?A = "probeAssign probeDistance i"
  let ?objs = "frameObjects d"
  obtain objs' c' where run:
    "foldl (injectProbe probeIntersects probeDistance i) (?objs, 0) hs = (objs', c')"
    by (cases "foldl (injectProbe probeIntersects probeDistance i) (?objs, 0) hs") auto
  note f = inject_fold[OF valid run]
  have len: "length objs' = length ?objs" using f by simp
  have nth: "\<And>p. p < length ?objs \<Longrightarrow> objs' ! p =
            (if p \<in> obj ` set hs \<and> ?T p (?objs ! p) then ?A p (?objs ! p) else ?objs ! p)"
    using f by simp
  have trig: "\<And>h. h \<in> set hs \<Longrightarrow>
      ?T (obj h) (?objs ! obj h)
        = (receivesProbes (?objs ! obj h)
           \<and> nearerThanEarlierProbes probeIntersects probeDistance i (obj h))"
  proof -
    fix h assume h: "h \<in> set hs"
    show "?T (obj h) (?objs ! obj h)
        = (receivesProbes (?objs ! obj h)
           \<and> nearerThanEarlierProbes probeIntersects probeDistance i (obj h))"
    proof (cases "receivesProbes (?objs ! obj h)")
      case True
      with inv h have "nearestProbeOf probeIntersects probeDistance i (obj h) (?objs ! obj h)"
        by blast
      from triggers_iff_nearer[OF this True] True show ?thesis by simp
    next
      case False
      then show ?thesis by (simp add: probeTriggers_def)
    qed
  qed
  have cnt: "(0 < c') = (\<exists>h \<in> set hs. receivesProbes (?objs ! obj h)
                        \<and> nearerThanEarlierProbes probeIntersects probeDistance i (obj h))"
  proof -
    have "(0 < c') = (\<exists>h \<in> set hs. ?T (obj h) (?objs ! obj h))" using f by simp
    also have "\<dots> = (\<exists>h \<in> set hs. receivesProbes (?objs ! obj h)
                        \<and> nearerThanEarlierProbes probeIntersects probeDistance i (obj h))"
      using trig by blast
    finally show ?thesis .
  qed
  have fold2: "foldl (injectProbe probeIntersects probeDistance i)
             (foldl (injectProbe probeIntersects probeDistance i) (frameObjects d, 0)
                (transparentObjects d))
             (opaqueObjects d) = (objs', c')"
    using run by (simp add: hs_def)
  have d1: "d1 = (if probeHasTexture probe
           then d\<lparr>frameObjects := objs',
                  reflectionMapEntries :=
                    reflectionMapEntries d @ [TexturedReflectionMapEntry i]\<rparr>
           else if c' > 0
           then d\<lparr>frameObjects := objs',
                  reflectionMapEntries :=
                    reflectionMapEntries d @ [LiveReflectionMapEntry i]\<rparr>
           else d\<lparr>frameObjects := objs'\<rparr>)"
    unfolding d1_def probeIteration_def by (simp only: fold2 prod.case)
  have fo: "frameObjects d1 = objs'" using d1 by simp
  show "transparentObjects d1 = transparentObjects d" using d1 by simp
  show "opaqueObjects d1 = opaqueObjects d" using d1 by simp
  show "length (frameObjects d1) = length (frameObjects d)" using fo len by simp
  show "\<forall>p < length (frameObjects d).
            receivesProbes (frameObjects d1 ! p) = receivesProbes (frameObjects d ! p)"
    using nth by (simp add: fo receivesProbes_assigned)
  show "\<forall>h \<in> set hs. receivesProbes (frameObjects d ! obj h)
            \<longrightarrow> nearestProbeOf probeIntersects probeDistance (Suc i) (obj h)
                  (frameObjects d1 ! obj h)"
  proof (intro ballI impI)
    fix h assume h: "h \<in> set hs" and r: "receivesProbes (frameObjects d ! obj h)"
    from valid h have b: "obj h < length ?objs" by blast
    from inv h r have n: "nearestProbeOf probeIntersects probeDistance i (obj h) (?objs ! obj h)"
      by blast
    have mem: "obj h \<in> obj ` set hs" using h by (rule imageI)
    show "nearestProbeOf probeIntersects probeDistance (Suc i) (obj h) (frameObjects d1 ! obj h)"
    proof (cases "nearerThanEarlierProbes probeIntersects probeDistance i (obj h)")
      case True
      then have "?T (obj h) (?objs ! obj h)" using trig[OF h] r by simp
      then have "objs' ! obj h = ?A (obj h) (?objs ! obj h)" using nth[OF b] mem by simp
      then show ?thesis using nearest_after_assign[OF True] by (simp add: fo)
    next
      case False
      then have "\<not> ?T (obj h) (?objs ! obj h)" using trig[OF h] by simp
      then have "objs' ! obj h = ?objs ! obj h" using nth[OF b] by simp
      then show ?thesis using nearest_kept[OF n r False] by (simp add: fo)
    qed
  qed
  show "reflectionMapEntries d1 = reflectionMapEntries d @
           (if probeHasTexture probe then [TexturedReflectionMapEntry i]
            else if (\<exists>h \<in> set hs. receivesProbes (frameObjects d ! obj h)
                        \<and> nearerThanEarlierProbes probeIntersects probeDistance i (obj h))
            then [LiveReflectionMapEntry i] else [])"
    unfolding cnt[symmetric] using d1 by simp
qed


lemma probeLoop_inv:
  assumes valid: "\<forall>h \<in> set (transparentObjects d @ opaqueObjects d). obj h < length (frameObjects d)"
    and inv: "\<forall>h \<in> set (transparentObjects d @ opaqueObjects d).
                receivesProbes (frameObjects d ! obj h)
                \<longrightarrow> nearestProbeOf probeIntersects probeDistance i (obj h) (frameObjects d ! obj h)"
  shows "(\<exists>new. reflectionMapEntries (probeLoop probeIntersects probeDistance i probes d)
                  = reflectionMapEntries d @ new
           \<and> (\<forall>k. (TexturedReflectionMapEntry k \<in> set new)
                  = (i \<le> k \<and> k < i + length probes \<and> probeHasTexture (probes ! (k - i))))
           \<and> (\<forall>k. (LiveReflectionMapEntry k \<in> set new)
                  = (i \<le> k \<and> k < i + length probes \<and> \<not> probeHasTexture (probes ! (k - i))
                     \<and> (\<exists>h \<in> set (transparentObjects d @ opaqueObjects d).
                           receivesProbes (frameObjects d ! obj h)
                           \<and> nearerThanEarlierProbes probeIntersects probeDistance k (obj h)))))
       \<and> (\<forall>h \<in> set (transparentObjects d @ opaqueObjects d).
             receivesProbes (frameObjects d ! obj h)
             \<longrightarrow> nearestProbeOf probeIntersects probeDistance (i + length probes) (obj h)
                   (frameObjects (probeLoop probeIntersects probeDistance i probes d) ! obj h))"
  using assms
proof (induction probes arbitrary: i d)
  case Nil
  then show ?case by simp
next
  case (Cons probe rest)
  let ?hs = "transparentObjects d @ opaqueObjects d"
  let ?d1 = "probeIteration probeIntersects probeDistance i probe d"
  let ?recv = "\<lambda>k. \<exists>h \<in> set ?hs. receivesProbes (frameObjects d ! obj h)
                   \<and> nearerThanEarlierProbes probeIntersects probeDistance k (obj h)"
  let ?e1 = "if probeHasTexture probe then [TexturedReflectionMapEntry i]
             else if ?recv i then [LiveReflectionMapEntry i] else []"
  note s = probeIteration_step[OF Cons.prems(1) Cons.prems(2), of probe]
  have hs1: "transparentObjects ?d1 @ opaqueObjects ?d1 = ?hs" using s(1,2) by simp
  have recv1: "\<And>h. h \<in> set ?hs \<Longrightarrow>
      receivesProbes (frameObjects ?d1 ! obj h) = receivesProbes (frameObjects d ! obj h)"
    using s(4) Cons.prems(1) by blast
  have valid1: "\<forall>h \<in> set (transparentObjects ?d1 @ opaqueObjects ?d1).
                  obj h < length (frameObjects ?d1)"
    unfolding hs1 using Cons.prems(1) s(3) by simp
  have inv1: "\<forall>h \<in> set (transparentObjects ?d1 @ opaqueObjects ?d1).
                receivesProbes (frameObjects ?d1 ! obj h)
                \<longrightarrow> nearestProbeOf probeIntersects probeDistance (i + 1) (obj h)
                      (frameObjects ?d1 ! obj h)"
    unfolding hs1 using s(5) recv1 by simp
  note ih = Cons.IH[OF valid1 inv1]
  from ih obtain new2 where n2:
    "reflectionMapEntries (probeLoop probeIntersects probeDistance (i + 1) rest ?d1)
       = reflectionMapEntries ?d1 @ new2"
    "\<forall>k. (TexturedReflectionMapEntry k \<in> set new2)
          = (i + 1 \<le> k \<and> k < i + 1 + length rest \<and> probeHasTexture (rest ! (k - (i + 1))))"
    "\<forall>k. (LiveReflectionMapEntry k \<in> set new2)
          = (i + 1 \<le> k \<and> k < i + 1 + length rest \<and> \<not> probeHasTexture (rest ! (k - (i + 1)))
             \<and> (\<exists>h \<in> set (transparentObjects ?d1 @ opaqueObjects ?d1).
                   receivesProbes (frameObjects ?d1 ! obj h)
                   \<and> nearerThanEarlierProbes probeIntersects probeDistance k (obj h)))"
    by blast
  have live2: "\<forall>k. (LiveReflectionMapEntry k \<in> set new2)
          = (i + 1 \<le> k \<and> k < i + 1 + length rest \<and> \<not> probeHasTexture (rest ! (k - (i + 1)))
             \<and> ?recv k)"
  proof
    fix k
    have "(\<exists>h \<in> set (transparentObjects ?d1 @ opaqueObjects ?d1).
                   receivesProbes (frameObjects ?d1 ! obj h)
                   \<and> nearerThanEarlierProbes probeIntersects probeDistance k (obj h)) = ?recv k"
      unfolding hs1 using recv1 by blast
    with n2(3) show "(LiveReflectionMapEntry k \<in> set new2)
          = (i + 1 \<le> k \<and> k < i + 1 + length rest \<and> \<not> probeHasTexture (rest ! (k - (i + 1)))
             \<and> ?recv k)"
      by simp
  qed
  have entries: "reflectionMapEntries (probeLoop probeIntersects probeDistance i (probe # rest) d)
                   = reflectionMapEntries d @ (?e1 @ new2)"
    using n2(1) s(6) by simp
  have nthc: "\<And>k. i + 1 \<le> k \<Longrightarrow> (probe # rest) ! (k - i) = rest ! (k - (i + 1))"
    by (simp add: nth_Cons')
  have tex: "\<forall>k. (TexturedReflectionMapEntry k \<in> set (?e1 @ new2))
          = (i \<le> k \<and> k < i + length (probe # rest) \<and> probeHasTexture ((probe # rest) ! (k - i)))"
  proof
    fix k
    show "(TexturedReflectionMapEntry k \<in> set (?e1 @ new2))
          = (i \<le> k \<and> k < i + length (probe # rest) \<and> probeHasTexture ((probe # rest) ! (k - i)))"
    proof (cases "k = i")
      case True
      then show ?thesis using n2(2) by simp
    next
      case False
      show ?thesis
      proof (cases "i + 1 \<le> k")
        case True
        then show ?thesis using n2(2) nthc[OF True] False by auto
      next
        case False
        then show ?thesis using n2(2) \<open>k \<noteq> i\<close> by auto
      qed
    qed
  qed
  have live: "\<forall>k. (LiveReflectionMapEntry k \<in> set (?e1 @ new2))
          = (i \<le> k \<and> k < i + length (probe # rest) \<and> \<not> probeHasTexture ((probe # rest) ! (k - i))
             \<and> ?recv k)"
  proof
    fix k
    show "(LiveReflectionMapEntry k \<in> set (?e1 @ new2))
          = (i \<le> k \<and> k < i + length (probe # rest) \<and> \<not> probeHasTexture ((probe # rest) ! (k - i))
             \<and> ?recv k)"
    proof (cases "k = i")
      case True
      then show ?thesis using live2 by simp
    next
      case False
      show ?thesis
      proof (cases "i + 1 \<le> k")
        case True
        then show ?thesis using live2 nthc[OF True] False by auto
      next
        case False
        then show ?thesis using live2 \<open>k \<noteq> i\<close> by auto
      qed
    qed
  qed
  have near: "\<forall>h \<in> set ?hs. receivesProbes (frameObjects d ! obj h)
             \<longrightarrow> nearestProbeOf probeIntersects probeDistance (i + length (probe # rest)) (obj h)
                   (frameObjects (probeLoop probeIntersects probeDistance i (probe # rest) d) ! obj h)"
  proof (intro ballI impI)
    fix h assume h: "h \<in> set ?hs" and r: "receivesProbes (frameObjects d ! obj h)"
    from h have h1: "h \<in> set (transparentObjects ?d1 @ opaqueObjects ?d1)" by (simp only: hs1)
    from r recv1[OF h] have r1: "receivesProbes (frameObjects ?d1 ! obj h)" by simp
    from ih h1 r1 have "nearestProbeOf probeIntersects probeDistance (i + 1 + length rest) (obj h)
        (frameObjects (probeLoop probeIntersects probeDistance (i + 1) rest ?d1) ! obj h)"
      by blast
    then show "nearestProbeOf probeIntersects probeDistance (i + length (probe # rest)) (obj h)
        (frameObjects (probeLoop probeIntersects probeDistance i (probe # rest) d) ! obj h)"
      by simp
  qed
  from entries tex live near show ?case by blast
qed


lemma nearestProbeOf_start:
  "reflectionProbeIndex ob = - 1 \<Longrightarrow> nearestProbeOf probeIntersects probeDistance 0 p ob"
  by (simp add: nearestProbeOf_def)

text \<open>
  Claim C9, as the code has it. The handles of the two buckets point into the store, no
  record is assigned to a probe yet and no entry is registered. After the injection: every
  probe with a texture has a textured entry, whatever the records do; a probe without a
  texture has a live entry exactly when, while that probe was processed, a record of the
  transparent or opaque bucket that receives reflections (and is not a particle record)
  was assigned to it, that is when the probe intersects such a record and is strictly
  nearer to it than every intersecting probe before it in the list (a later probe that is
  nearer still takes the record over, and the entry stays); and every such record ends
  with the index of the nearest probe that intersects it (of the first such probe, when
  several are equally near), or unassigned when no probe intersects it.
\<close>

theorem reflection_probe_registration:
  fixes d :: QSSGLayerRenderData
    and probeIntersects :: "nat \<Rightarrow> nat \<Rightarrow> bool" and probeDistance :: "nat \<Rightarrow> nat \<Rightarrow> real"
    and reflectionProbes :: "QSSGRenderReflectionProbe list"
  defines "d' \<equiv> prepareReflectionProbesForRender probeIntersects probeDistance reflectionProbes d"
    and "hs \<equiv> transparentObjects d @ opaqueObjects d"
  assumes valid: "\<forall>h \<in> set hs. obj h < length (frameObjects d)"
    and fresh: "\<forall>h \<in> set hs. reflectionProbeIndex (frameObjects d ! obj h) = - 1"
    and none: "reflectionMapEntries d = []"
  shows "(\<forall>k < length reflectionProbes. probeHasTexture (reflectionProbes ! k)
            \<longrightarrow> TexturedReflectionMapEntry k \<in> set (reflectionMapEntries d'))
       \<and> (\<forall>k. (LiveReflectionMapEntry k \<in> set (reflectionMapEntries d'))
              = (k < length reflectionProbes \<and> \<not> probeHasTexture (reflectionProbes ! k)
                 \<and> (\<exists>h \<in> set hs. receivesProbes (frameObjects d ! obj h)
                       \<and> nearerThanEarlierProbes probeIntersects probeDistance k (obj h))))
       \<and> (\<forall>h \<in> set hs. receivesProbes (frameObjects d ! obj h)
              \<longrightarrow> nearestProbeOf probeIntersects probeDistance (length reflectionProbes) (obj h)
                    (frameObjects d' ! obj h))"
proof -
  have inv: "\<forall>h \<in> set (transparentObjects d @ opaqueObjects d).
                receivesProbes (frameObjects d ! obj h)
                \<longrightarrow> nearestProbeOf probeIntersects probeDistance 0 (obj h) (frameObjects d ! obj h)"
    using fresh unfolding hs_def by (simp add: nearestProbeOf_start)
  note l = probeLoop_inv[OF valid[unfolded hs_def] inv, of reflectionProbes]
  from l obtain new where new:
    "reflectionMapEntries (probeLoop probeIntersects probeDistance 0 reflectionProbes d)
       = reflectionMapEntries d @ new"
    "\<forall>k. (TexturedReflectionMapEntry k \<in> set new)
          = (0 \<le> k \<and> k < 0 + length reflectionProbes \<and> probeHasTexture (reflectionProbes ! (k - 0)))"
    "\<forall>k. (LiveReflectionMapEntry k \<in> set new)
          = (0 \<le> k \<and> k < 0 + length reflectionProbes \<and> \<not> probeHasTexture (reflectionProbes ! (k - 0))
             \<and> (\<exists>h \<in> set (transparentObjects d @ opaqueObjects d).
                   receivesProbes (frameObjects d ! obj h)
                   \<and> nearerThanEarlierProbes probeIntersects probeDistance k (obj h)))"
    by blast
  have e: "reflectionMapEntries d' = new"
    using new(1) none by (simp add: d'_def prepareReflectionProbesForRender_def)
  have 1: "\<forall>k < length reflectionProbes. probeHasTexture (reflectionProbes ! k)
            \<longrightarrow> TexturedReflectionMapEntry k \<in> set (reflectionMapEntries d')"
    using new(2) by (simp add: e)
  have 2: "\<forall>k. (LiveReflectionMapEntry k \<in> set (reflectionMapEntries d'))
              = (k < length reflectionProbes \<and> \<not> probeHasTexture (reflectionProbes ! k)
                 \<and> (\<exists>h \<in> set hs. receivesProbes (frameObjects d ! obj h)
                       \<and> nearerThanEarlierProbes probeIntersects probeDistance k (obj h)))"
    using new(3) by (simp add: e hs_def)
  have 3: "\<forall>h \<in> set hs. receivesProbes (frameObjects d ! obj h)
              \<longrightarrow> nearestProbeOf probeIntersects probeDistance (length reflectionProbes) (obj h)
                    (frameObjects d' ! obj h)"
    using l by (simp add: d'_def hs_def prepareReflectionProbesForRender_def)
  from 1 2 3 show ?thesis by (intro conjI)
qed

text \<open>
  Two probes without a texture and one record that both intersect, the second being the
  nearer: the first probe is registered although the record ends the frame assigned to
  the second, so that no record ends the frame assigned to the first.
\<close>

theorem reflection_probe_registration_counterexample:
  "LiveReflectionMapEntry 0 \<in> set (reflectionMapEntries (prepareReflectionProbesForRender (\<lambda>i p. True) (\<lambda>i p. if i = 0 then 2 else 1) [\<lparr>probeHasTexture = False\<rparr>, \<lparr>probeHasTexture = False\<rparr>] exampleProbeLayer))
   \<and> reflectionMapEntries (prepareReflectionProbesForRender (\<lambda>i p. True) (\<lambda>i p. if i = 0 then 2 else 1) [\<lparr>probeHasTexture = False\<rparr>, \<lparr>probeHasTexture = False\<rparr>] exampleProbeLayer) = [LiveReflectionMapEntry 0, LiveReflectionMapEntry 1]
   \<and> transparentObjects (prepareReflectionProbesForRender (\<lambda>i p. True) (\<lambda>i p. if i = 0 then 2 else 1) [\<lparr>probeHasTexture = False\<rparr>, \<lparr>probeHasTexture = False\<rparr>] exampleProbeLayer) = []
   \<and> map obj (opaqueObjects (prepareReflectionProbesForRender (\<lambda>i p. True) (\<lambda>i p. if i = 0 then 2 else 1) [\<lparr>probeHasTexture = False\<rparr>, \<lparr>probeHasTexture = False\<rparr>] exampleProbeLayer)) = [0]
   \<and> map reflectionProbeIndex (frameObjects (prepareReflectionProbesForRender (\<lambda>i p. True) (\<lambda>i p. if i = 0 then 2 else 1) [\<lparr>probeHasTexture = False\<rparr>, \<lparr>probeHasTexture = False\<rparr>] exampleProbeLayer)) = [1]"
  by (simp add: prepareReflectionProbesForRender_def probeIteration_def injectProbe_def
        exampleProbeLayer_def emptyLayerData_def Let_def)


theorem reflection_probe_registration_witness:
  "TexturedReflectionMapEntry 1
     \<in> set (reflectionMapEntries
          (prepareReflectionProbesForRender (\<lambda>i p. True) (\<lambda>i p. if i = 0 then 2 else 1)
             [\<lparr>probeHasTexture = False\<rparr>, \<lparr>probeHasTexture = True\<rparr>] exampleProbeLayer))
   \<and> LiveReflectionMapEntry 0
     \<in> set (reflectionMapEntries
          (prepareReflectionProbesForRender (\<lambda>i p. True) (\<lambda>i p. if i = 0 then 2 else 1)
             [\<lparr>probeHasTexture = False\<rparr>, \<lparr>probeHasTexture = True\<rparr>] exampleProbeLayer))
   \<and> nearestProbeOf (\<lambda>i p. True) (\<lambda>i p. if i = 0 then 2 else 1) 2 0
        (frameObjects
          (prepareReflectionProbesForRender (\<lambda>i p. True) (\<lambda>i p. if i = 0 then 2 else 1)
             [\<lparr>probeHasTexture = False\<rparr>, \<lparr>probeHasTexture = True\<rparr>] exampleProbeLayer) ! 0)"
proof -
  have valid: "\<forall>h \<in> set (transparentObjects exampleProbeLayer @ opaqueObjects exampleProbeLayer).
                 obj h < length (frameObjects exampleProbeLayer)"
    by (simp add: exampleProbeLayer_def emptyLayerData_def)
  have fresh: "\<forall>h \<in> set (transparentObjects exampleProbeLayer @ opaqueObjects exampleProbeLayer).
                 reflectionProbeIndex (frameObjects exampleProbeLayer ! obj h) = - 1"
    by (simp add: exampleProbeLayer_def emptyLayerData_def)
  have none: "reflectionMapEntries exampleProbeLayer = []"
    by (simp add: exampleProbeLayer_def emptyLayerData_def)
  have hs: "transparentObjects exampleProbeLayer @ opaqueObjects exampleProbeLayer
              = [\<lparr>obj = 0, cameraDistanceSq = 0\<rparr>]"
    by (simp add: exampleProbeLayer_def emptyLayerData_def)
  have rec: "receivesProbes (frameObjects exampleProbeLayer ! 0)"
    by (simp add: exampleProbeLayer_def emptyLayerData_def receivesProbes_def)
  have near: "nearerThanEarlierProbes (\<lambda>i p. True) (\<lambda>i p. if i = 0 then 2 else (1::real)) 0 0"
    by (simp add: nearerThanEarlierProbes_def)
  note t = reflection_probe_registration
             [where d = exampleProbeLayer and probeIntersects = "\<lambda>i p. True"
                and probeDistance = "\<lambda>i p. if i = 0 then 2 else 1"
                and reflectionProbes = "[\<lparr>probeHasTexture = False\<rparr>, \<lparr>probeHasTexture = True\<rparr>]",
              OF valid fresh none]
  have 1: ?thesis
    using t[THEN conjunct1, rule_format, of 1]
          t[THEN conjunct2, THEN conjunct1, rule_format, of 0]
          t[THEN conjunct2, THEN conjunct2, rule_format, of "\<lparr>obj = 0, cameraDistanceSq = 0\<rparr>"]
          rec near
    by (simp add: hs numeral_2_eq_2)
  then show ?thesis .
qed

end
